theory Spec2Isabelle
  imports Main "HOL-Library.Word"
begin

unbundle bit_operations_syntax

section \<open>Word Memory (class Memory of sim.cpp)\<close>

text \<open>
  \<^verbatim>\<open>std::vector<uint32_t> memory\<close> is a list of 32-bit words whose length is the capacity
  fixed by the constructor.  Addresses are \<^verbatim>\<open>size_t\<close>, 64 bits on the simulator's host.
\<close>

type_synonym u8 = "8 word"
type_synonym u16 = "16 word"
type_synonym u32 = "32 word"
type_synonym u64 = "64 word"

type_synonym Memory = "u32 list"

text \<open>The constructor \<^verbatim>\<open>Memory(size_t size) : memory(size, 0)\<close>.\<close>

definition Memory_init :: "nat \<Rightarrow> Memory" where
  "Memory_init sz = replicate sz 0"

text \<open>\<^verbatim>\<open>uint32_t read(size_t address)\<close>: the word index is the byte address divided by 4.\<close>

definition Memory_read :: "Memory \<Rightarrow> u64 \<Rightarrow> u32" where
  "Memory_read memory address =
     (let address = address div 4 in
      if unat address \<ge> length memory then 0 else memory ! unat address)"

subsection \<open>Formatting with printf\<close>

text \<open>
  \<^verbatim>\<open>%x\<close> prints an unsigned value in lowercase hexadecimal without leading zeros (a
  single 0 for the value zero); the flag and width \<^verbatim>\<open>08\<close> pad with zeros on the left
  to at least eight characters.
\<close>

definition hex_digit :: "nat \<Rightarrow> char" where
  "hex_digit d = ''0123456789abcdef'' ! (d mod 16)"

fun hex_digits :: "nat \<Rightarrow> string" where
  "hex_digits n = (if n < 16 then [hex_digit n] else hex_digits (n div 16) @ [hex_digit (n mod 16)])"

declare hex_digits.simps [simp del]

definition printf_08x :: "nat \<Rightarrow> string" where
  "printf_08x n = (let ds = hex_digits n in replicate (8 - length ds) CHR ''0'' @ ds)"

text \<open>
  \<^verbatim>\<open>uint32_t readInst(size_t address)\<close> prints a diagnostic on standard output when the
  word index is out of range.  The model returns the word together with the text printed.
\<close>

definition Memory_readInst :: "Memory \<Rightarrow> u64 \<Rightarrow> u32 \<times> string" where
  "Memory_readInst memory address =
     (let address = address div 4 in
      if unat address \<ge> length memory
      then (0, ''invalid read Inst address 0x'' @ printf_08x (unat (address * 4)) @ [CHR 0x0A])
      else (memory ! unat address, []))"

text \<open>
  \<^verbatim>\<open>void write(size_t address, uint32_t value, bool write_strobe[4])\<close>.  The four
  strobes are a tuple, lane 0 first.
\<close>

type_synonym strobe = "bool \<times> bool \<times> bool \<times> bool"

definition write_mask_of :: "strobe \<Rightarrow> u32" where
  "write_mask_of write_strobe =
     (case write_strobe of (s0, s1, s2, s3) \<Rightarrow>
        let write_mask = 0;
            write_mask = (if s0 then write_mask OR 0x000000FF else write_mask);
            write_mask = (if s1 then write_mask OR 0x0000FF00 else write_mask);
            write_mask = (if s2 then write_mask OR 0x00FF0000 else write_mask);
            write_mask = (if s3 then write_mask OR 0xFF000000 else write_mask)
        in write_mask)"

definition Memory_write :: "Memory \<Rightarrow> u64 \<Rightarrow> u32 \<Rightarrow> strobe \<Rightarrow> Memory" where
  "Memory_write memory address value write_strobe =
     (let address = address div 4;
          write_mask = write_mask_of write_strobe
      in if unat address \<ge> length memory then memory
         else memory[unat address :=
                (memory ! unat address AND NOT write_mask) OR (value AND write_mask)])"

text \<open>Byte lane \<open>i\<close> of a word (lane 0 is the least significant byte), and strobe \<open>i\<close>.\<close>

definition byte_lane :: "u32 \<Rightarrow> nat \<Rightarrow> u8" where
  "byte_lane w i = ucast (drop_bit (8 * i) w)"

fun strobe_at :: "strobe \<Rightarrow> nat \<Rightarrow> bool" where
  "strobe_at (s0, s1, s2, s3) i = (if i = 0 then s0 else if i = 1 then s1 else if i = 2 then s2 else s3)"


section \<open>Bus address map\<close>

text \<open>
  \<^verbatim>\<open>DEVICE_SELECT_BITS\<close>, \<^verbatim>\<open>DEVICE_SHIFT\<close>, \<^verbatim>\<open>DEVICE_MASK\<close> and the three device
  bases, all \<^verbatim>\<open>constexpr uint32_t\<close>.
\<close>

definition DEVICE_SELECT_BITS :: u32 where "DEVICE_SELECT_BITS = 3"
definition DEVICE_SHIFT :: u32 where "DEVICE_SHIFT = 32 - DEVICE_SELECT_BITS"
definition DEVICE_MASK :: u32 where "DEVICE_MASK = push_bit (unat DEVICE_SHIFT) 1 - 1"
definition UART_BASE :: u32 where "UART_BASE = 0x40000000"
definition TIMER_BASE :: u32 where "TIMER_BASE = 0x80000000"
definition VGA_BASE :: u32 where "VGA_BASE = 0x30000000"

section \<open>Timer register file (class TimerMMIO)\<close>

record TimerMMIO =
  limit :: u32
  timer_enabled :: bool

definition TimerMMIO_init :: TimerMMIO where
  "TimerMMIO_init = \<lparr>limit = 0, timer_enabled = False\<rparr>"

definition TimerMMIO_write :: "TimerMMIO \<Rightarrow> u32 \<Rightarrow> u32 \<Rightarrow> TimerMMIO" where
  "TimerMMIO_write t offset v =
     (if offset = 0x4 then t\<lparr>limit := v\<rparr>
      else if offset = 0x8 then t\<lparr>timer_enabled := (v \<noteq> 0)\<rparr>
      else t)"

definition TimerMMIO_read :: "TimerMMIO \<Rightarrow> u32 \<Rightarrow> u32" where
  "TimerMMIO_read t offset =
     (if offset = 0x4 then limit t
      else if offset = 0x8 then (if timer_enabled t then 1 else 0)
      else 0)"

section \<open>UART register file (class UartMMIO)\<close>

text \<open>
  \<^verbatim>\<open>tx_log\<close> is the \<^verbatim>\<open>std::string\<close> the transmitted bytes are pushed to.  A
  transmitted byte is also written to \<^verbatim>\<open>std::cout\<close>; \<open>UartMMIO_write\<close> returns the new
  register file together with the text it printed.
\<close>

record UartMMIO =
  baudrate :: u32
  uart_enabled :: bool
  last_rx :: u8
  tx_log :: string

definition UartMMIO_init :: UartMMIO where
  "UartMMIO_init = \<lparr>baudrate = 115200, uart_enabled = False, last_rx = 0, tx_log = []\<rparr>"

definition UartMMIO_write :: "UartMMIO \<Rightarrow> u32 \<Rightarrow> u32 \<Rightarrow> UartMMIO \<times> string" where
  "UartMMIO_write u offset v =
     (if offset = 0x4 then (u\<lparr>baudrate := v\<rparr>, [])
      else if offset = 0x8 then (u\<lparr>uart_enabled := (v \<noteq> 0)\<rparr>, [])
      else if offset = 0x10 then
        (let ch = (ucast (v AND 0xFF) :: u8) in
         if uart_enabled u
         then (u\<lparr>tx_log := tx_log u @ [char_of (unat ch)]\<rparr>, [char_of (unat ch)])
         else (u, []))
      else (u, []))"

definition UartMMIO_read :: "UartMMIO \<Rightarrow> u32 \<Rightarrow> u32" where
  "UartMMIO_read u offset =
     (if offset = 0x4 then baudrate u
      else if offset = 0xC then ucast (last_rx u)
      else 0)"

text \<open>The register file after a sequence of (offset, value) writes, starting from construction.\<close>

definition UartMMIO_writes :: "UartMMIO \<Rightarrow> (u32 \<times> u32) list \<Rightarrow> UartMMIO" where
  "UartMMIO_writes u ws = foldl (\<lambda>u (offset, v). fst (UartMMIO_write u offset v)) u ws"

section \<open>Bus decoding and dispatch (the body of Simulator::run)\<close>

definition effective_address_of :: "u32 \<Rightarrow> u32 \<Rightarrow> u32" where
  "effective_address_of device_select bundle_address =
     (let low_address = bundle_address AND DEVICE_MASK
      in push_bit (unat DEVICE_SHIFT) device_select OR low_address)"

definition is_uart :: "u32 \<Rightarrow> bool" where
  "is_uart effective_address \<longleftrightarrow> effective_address AND 0xF0000000 = UART_BASE"

definition is_timer :: "u32 \<Rightarrow> bool" where
  "is_timer effective_address \<longleftrightarrow> effective_address AND 0xF0000000 = TIMER_BASE"

definition is_vga :: "u32 \<Rightarrow> bool" where
  "is_vga effective_address \<longleftrightarrow> effective_address AND 0xF0000000 = VGA_BASE"

text \<open>The three stores a bus transaction can reach.\<close>

record Bus =
  memory :: Memory
  timer :: TimerMMIO
  uart :: UartMMIO

text \<open>
  The write branch of the dispatch, taken when the core asserts write-enable: the
  \<^verbatim>\<open>if (device_select == 0) ... else if (is_uart) ... else if (is_timer) ... else if (is_vga)\<close>
  chain.  The result is the updated stores and the text printed.
\<close>

definition bus_write :: "Bus \<Rightarrow> u32 \<Rightarrow> u32 \<Rightarrow> u32 \<Rightarrow> strobe \<Rightarrow> Bus \<times> string" where
  "bus_write b device_select bundle_address write_data write_strobe =
     (let effective_address = effective_address_of device_select bundle_address in
      if device_select = 0 then
        (b\<lparr>memory := Memory_write (memory b) (ucast effective_address) write_data write_strobe\<rparr>, [])
      else if is_uart effective_address then
        (let (u, out) = UartMMIO_write (uart b) (effective_address - UART_BASE) write_data
         in (b\<lparr>uart := u\<rparr>, out))
      else if is_timer effective_address then
        (b\<lparr>timer := TimerMMIO_write (timer b) (effective_address - TIMER_BASE) write_data\<rparr>, [])
      else if is_vga effective_address then (b, [])
      else (b, []))"

text \<open>The read branch, taken on every tick; its result is the next \<^verbatim>\<open>data_memory_read_word\<close>.\<close>

definition bus_read :: "Bus \<Rightarrow> u32 \<Rightarrow> u32 \<Rightarrow> u32" where
  "bus_read b device_select bundle_address =
     (let effective_address = effective_address_of device_select bundle_address in
      if device_select = 0 then Memory_read (memory b) (ucast effective_address)
      else if is_uart effective_address then UartMMIO_read (uart b) (effective_address - UART_BASE)
      else if is_timer effective_address then TimerMMIO_read (timer b) (effective_address - TIMER_BASE)
      else if is_vga effective_address then 0
      else 0)"

section \<open>Frame compositor (class VGADisplay)\<close>

definition H_RES :: nat where "H_RES = 640"
definition V_RES :: nat where "V_RES = 480"

text \<open>
  The SDL window, renderer and texture are the display sink.  Of the sink the model keeps
  the frames it was given to present (\<open>presented\<close>, oldest first); the events its pump
  delivers are an input of \<open>render\<close>.
\<close>

datatype SDL_Event = SDL_QUIT | SDL_KEYDOWN int | SDL_OTHER

definition SDLK_ESCAPE :: int where "SDLK_ESCAPE = 27"

record VGADisplay =
  framebuffer :: "u8 list"
  prev_vsync :: bool
  should_quit :: bool
  presented :: "u8 list list"

definition VGADisplay_init :: VGADisplay where
  "VGADisplay_init =
     \<lparr>framebuffer = replicate (H_RES * V_RES * 4) 0, prev_vsync = True,
      should_quit = False, presented = []\<rparr>"

definition vga2bit_to_8bit :: "u8 \<Rightarrow> u8" where
  "vga2bit_to_8bit val = val * 85"

definition update_pixel :: "VGADisplay \<Rightarrow> u8 \<Rightarrow> u8 \<Rightarrow> u16 \<Rightarrow> u16 \<Rightarrow> VGADisplay" where
  "update_pixel d rrggbb activevideo x_pos y_pos =
     (if activevideo \<noteq> 0 \<and> unat x_pos < H_RES \<and> unat y_pos < V_RES then
        let idx = (unat y_pos * H_RES + unat x_pos) * 4;
            fb = framebuffer d;
            fb = fb[idx := vga2bit_to_8bit (rrggbb AND 3)];
            fb = fb[idx + 1 := vga2bit_to_8bit (drop_bit 2 rrggbb AND 3)];
            fb = fb[idx + 2 := vga2bit_to_8bit (drop_bit 4 rrggbb AND 3)];
            fb = fb[idx + 3 := 255]
        in d\<lparr>framebuffer := fb\<rparr>
      else d)"

definition is_quit_event :: "SDL_Event \<Rightarrow> bool" where
  "is_quit_event e = (case e of SDL_QUIT \<Rightarrow> True | SDL_KEYDOWN keysym \<Rightarrow> keysym = SDLK_ESCAPE | SDL_OTHER \<Rightarrow> False)"

definition render :: "SDL_Event list \<Rightarrow> VGADisplay \<Rightarrow> VGADisplay" where
  "render events d =
     d\<lparr>should_quit := (should_quit d \<or> list_ex is_quit_event events),
       presented := presented d @ [framebuffer d]\<rparr>"

definition check_vsync :: "SDL_Event list \<Rightarrow> VGADisplay \<Rightarrow> bool \<Rightarrow> VGADisplay" where
  "check_vsync events d vsync =
     (let d = (if \<not> vsync \<and> prev_vsync d then render events d else d)
      in d\<lparr>prev_vsync := vsync\<rparr>)"

definition quit_requested :: "VGADisplay \<Rightarrow> bool" where
  "quit_requested d = should_quit d"

text \<open>Feeding a sequence of vsync samples, each with the events pending when it is checked.\<close>

fun check_vsyncs :: "VGADisplay \<Rightarrow> (bool \<times> SDL_Event list) list \<Rightarrow> VGADisplay" where
  "check_vsyncs d [] = d"
| "check_vsyncs d ((vsync, events) # rest) = check_vsyncs (check_vsync events d vsync) rest"

text \<open>The falling edges of a sample sequence, given the sample before it.\<close>

fun falling_edges :: "bool \<Rightarrow> bool list \<Rightarrow> nat" where
  "falling_edges prev [] = 0"
| "falling_edges prev (v # vs) = (if prev \<and> \<not> v then 1 else 0) + falling_edges v vs"


section \<open>The core under test (class VTop) and the simulation session\<close>

text \<open>
  The core is opaque: a set of pins and one evaluation operation.  The generated header
  that declares the pins is not among the sources, so every pin has the type of the
  variable or parameter the simulator reads it into, or of the value it assigns (a
  narrower pin embeds into it unchanged).  \<open>got_finish\<close> is
  \<^verbatim>\<open>Verilated::gotFinish()\<close>, which only an evaluation can raise; \<open>core\<close> is the
  state inside the core.  The evaluation \<^verbatim>\<open>top->eval()\<close> is a parameter \<open>eval\<close> of every
  function that calls it.
\<close>

record 'c VTop =
  reset :: bool
  clock :: bool
  io_instruction_valid :: bool
  io_vga_pixclk :: bool
  io_memory_bundle_read_data :: u32
  io_instruction :: u32
  io_interrupt_flag :: u32
  io_deviceSelect :: u32
  io_memory_bundle_address :: u32
  io_memory_bundle_write_enable :: bool
  io_memory_bundle_write_strobe_0 :: bool
  io_memory_bundle_write_strobe_1 :: bool
  io_memory_bundle_write_strobe_2 :: bool
  io_memory_bundle_write_strobe_3 :: bool
  io_memory_bundle_write_data :: u32
  io_instruction_address :: u64
  io_vga_rrggbb :: u8
  io_vga_activevideo :: u8
  io_vga_x_pos :: u16
  io_vga_y_pos :: u16
  io_vga_vsync :: bool
  got_finish :: bool
  core :: 'c

text \<open>
  The members of \<^verbatim>\<open>Simulator\<close> that \<^verbatim>\<open>run\<close> uses, followed by the locals of
  \<^verbatim>\<open>run\<close> that live across ticks and by the text written to standard output.  The
  model is of the build with the display compiled in; \<open>vga_display = None\<close> is a session
  without \<^verbatim>\<open>-vga\<close>.  The waveform recorder only observes and is left out.
\<close>

record 'c Simulator =
  main_time :: u64
  max_sim_time :: u64
  halt_address :: u32
  top :: "'c VTop"
  bus :: Bus
  dump_signature :: bool
  signature_begin :: u32
  signature_end :: u32
  vga_display :: "VGADisplay option"
  data_memory_read_word :: u32
  inst_memory_read_word :: u32
  counter :: u32
  stdout :: string

datatype sim_error = DivisionByZero

datatype outcome = Continue | Break

definition clocktime :: u32 where "clocktime = 1"

definition endl :: string where "endl = [CHR 0x0A]"

fun dec_digits :: "nat \<Rightarrow> string" where
  "dec_digits n = (if n < 10 then [''0123456789'' ! n] else dec_digits (n div 10) @ [''0123456789'' ! (n mod 10)])"

declare dec_digits.simps [simp del]

text \<open>The head of the loop body, up to and including the evaluation of the core.\<close>

definition tick_eval :: "('c VTop \<Rightarrow> 'c VTop) \<Rightarrow> 'c Simulator \<Rightarrow> 'c Simulator" where
  "tick_eval eval s =
     (let s = s\<lparr>main_time := main_time s + 1, counter := counter s + 1\<rparr>;
          s = (if counter s > clocktime
               then s\<lparr>top := (top s)\<lparr>clock := \<not> clock (top s)\<rparr>, counter := 0\<rparr> else s);
          s = (if main_time s > 2 then s\<lparr>top := (top s)\<lparr>reset := False\<rparr>\<rparr> else s);
          t = (top s)\<lparr>io_memory_bundle_read_data := data_memory_read_word s,
                      io_instruction := inst_memory_read_word s\<rparr>;
          t = t\<lparr>io_vga_pixclk := clock t\<rparr>;
          t = eval t;
          t = t\<lparr>io_interrupt_flag := 0\<rparr>
      in s\<lparr>top := t\<rparr>)"

text \<open>Decoding the bus signals the evaluation produced, the write, the read and the fetch.\<close>

definition tick_dispatch :: "'c Simulator \<Rightarrow> 'c Simulator" where
  "tick_dispatch s =
     (let t = top s;
          device_select = io_deviceSelect t;
          (b, out) =
            (if io_memory_bundle_write_enable t
             then bus_write (bus s) device_select (io_memory_bundle_address t)
                    (io_memory_bundle_write_data t)
                    (io_memory_bundle_write_strobe_0 t, io_memory_bundle_write_strobe_1 t,
                     io_memory_bundle_write_strobe_2 t, io_memory_bundle_write_strobe_3 t)
             else (bus s, []));
          data_word = bus_read b device_select (io_memory_bundle_address t);
          (inst_word, diag) = Memory_readInst (memory b) (io_instruction_address t)
      in s\<lparr>bus := b, data_memory_read_word := data_word, inst_memory_read_word := inst_word,
           stdout := stdout s @ out @ diag\<rparr>)"

text \<open>The display part of the body; \<open>Break\<close> is the \<^verbatim>\<open>break\<close> on a quit request.\<close>

definition quit_message :: string where
  "quit_message = [CHR 0x0A] @ ''[SDL2] User closed window or pressed ESC - stopping simulation'' @ endl"

definition tick_display :: "SDL_Event list \<Rightarrow> 'c Simulator \<Rightarrow> outcome \<times> 'c Simulator" where
  "tick_display events s =
     (case vga_display s of
        None \<Rightarrow> (Continue, s)
      | Some d \<Rightarrow>
          let t = top s;
              d = update_pixel d (io_vga_rrggbb t) (io_vga_activevideo t) (io_vga_x_pos t) (io_vga_y_pos t);
              d = check_vsync events d (io_vga_vsync t);
              s = s\<lparr>vga_display := Some d\<rparr>
          in if quit_requested d then (Break, s\<lparr>stdout := stdout s @ quit_message\<rparr>)
             else (Continue, s))"

text \<open>The halt check: \<^verbatim>\<open>if (halt_address) if (memory->read(halt_address) == 0xBABECAFE) break;\<close>\<close>

definition tick_halt :: "'c Simulator \<Rightarrow> outcome" where
  "tick_halt s =
     (if halt_address s \<noteq> 0 then
        (if Memory_read (memory (bus s)) (ucast (halt_address s)) = 0xBABECAFE then Break else Continue)
      else Continue)"

text \<open>
  The progress report.  The divisor \<^verbatim>\<open>max_sim_time / 100\<close> can be zero; the remainder of
  a division by zero is undefined in C++ and is the error \<open>DivisionByZero\<close> here.
\<close>

definition progress_divisor :: "'c Simulator \<Rightarrow> u64" where
  "progress_divisor s = max_sim_time s div 100"

definition tick_progress :: "'c Simulator \<Rightarrow> sim_error + 'c Simulator" where
  "tick_progress s =
     (if progress_divisor s = 0 then Inl DivisionByZero
      else if main_time s mod progress_divisor s = 0 then
        Inr (s\<lparr>stdout := stdout s @ ''Simulation progress: ''
                  @ dec_digits (unat (main_time s * 100 div max_sim_time s)) @ ''%'' @ endl\<rparr>)
      else Inr s)"

text \<open>
  One iteration of the \<^verbatim>\<open>while\<close> loop.  \<open>poll\<close> gives the events the display sink's
  pump delivers at a tick.
\<close>

definition tick ::
  "('c VTop \<Rightarrow> 'c VTop) \<Rightarrow> (u64 \<Rightarrow> SDL_Event list) \<Rightarrow> 'c Simulator \<Rightarrow> sim_error + outcome \<times> 'c Simulator" where
  "tick eval poll s =
     (let s = tick_dispatch (tick_eval eval s) in
      case tick_display (poll (main_time s)) s of
        (Break, s) \<Rightarrow> Inr (Break, s)
      | (Continue, s) \<Rightarrow>
          (case tick_halt s of
             Break \<Rightarrow> Inr (Break, s)
           | Continue \<Rightarrow>
               (case tick_progress s of Inl e \<Rightarrow> Inl e | Inr s \<Rightarrow> Inr (Continue, s))))"

text \<open>\<^verbatim>\<open>while (main_time < max_sim_time && !Verilated::gotFinish())\<close>\<close>

definition loop_condition :: "'c Simulator \<Rightarrow> bool" where
  "loop_condition s \<longleftrightarrow> main_time s < max_sim_time s \<and> \<not> got_finish (top s)"

function run_loop ::
  "('c VTop \<Rightarrow> 'c VTop) \<Rightarrow> (u64 \<Rightarrow> SDL_Event list) \<Rightarrow> 'c Simulator \<Rightarrow> sim_error + 'c Simulator" where
  "run_loop eval poll s =
     (if loop_condition s then
        (case tick eval poll s of
           Inl e \<Rightarrow> Inl e
         | Inr (Break, s') \<Rightarrow> Inr s'
         | Inr (Continue, s') \<Rightarrow> run_loop eval poll s')
      else Inr s)"
  by pat_completeness auto
termination
proof -
  have step: "unat (max_sim_time s') - unat (main_time s') < unat (max_sim_time s) - unat (main_time s)"
    if c: "loop_condition s" and t: "tick eval poll s = Inr (Continue, s')"
    for eval :: "'c VTop \<Rightarrow> 'c VTop" and poll and s s' :: "'c Simulator"
  proof -
    have lt: "main_time s < max_sim_time s"
      using c by (simp add: loop_condition_def)
    have e: "main_time (tick_dispatch (tick_eval eval s)) = main_time s + 1
             \<and> max_sim_time (tick_dispatch (tick_eval eval s)) = max_sim_time s"
      by (simp add: tick_dispatch_def tick_eval_def Let_def split: prod.splits)
    have d: "\<And>ev u o' u'. tick_display ev u = (o', u') \<Longrightarrow>
               main_time u' = main_time u \<and> max_sim_time u' = max_sim_time u"
      by (auto simp: tick_display_def Let_def split: option.splits if_splits)
    have p: "\<And>u u'. tick_progress u = Inr u' \<Longrightarrow>
               main_time u' = main_time u \<and> max_sim_time u' = max_sim_time u"
      by (auto simp: tick_progress_def split: if_splits)
    have "main_time s' = main_time s + 1 \<and> max_sim_time s' = max_sim_time s"
      using t e
      by (auto simp: tick_def Let_def split: prod.splits outcome.splits sum.splits dest!: d p)
    moreover have "unat (main_time s + 1) = unat (main_time s) + 1"
      using lt by unat_arith
    ultimately show ?thesis
      using lt by (simp add: word_less_nat_alt)
  qed
  show ?thesis
    by (relation "measure (\<lambda>(eval, poll, s). unat (max_sim_time s) - unat (main_time s))")
       (auto dest: step)
qed

declare run_loop.simps [simp del]

section \<open>Signature extractor\<close>

text \<open>
  \<^verbatim>\<open>for (size_t addr = signature_begin; addr < signature_end; addr += 4)\<close>, each
  iteration writing \<^verbatim>\<open>snprintf(data, 9, "%08x", memory->read(addr))\<close> and a newline.
  The two bounds are the 32-bit values \<^verbatim>\<open>parse_number\<close> returned, so the 64-bit \<open>addr\<close>
  stays below \<open>2 ^ 32 + 4\<close> and never wraps; it is a natural number here.  \<open>snprintf\<close>
  with size 9 keeps at most eight characters.
\<close>

definition signature_line :: "Memory \<Rightarrow> nat \<Rightarrow> string" where
  "signature_line mem addr = take 8 (printf_08x (unat (Memory_read mem (of_nat addr))))"

function signature_loop :: "Memory \<Rightarrow> nat \<Rightarrow> nat \<Rightarrow> string" where
  "signature_loop mem addr end_addr =
     (if addr < end_addr then signature_line mem addr @ endl @ signature_loop mem (addr + 4) end_addr
      else [])"
  by pat_completeness auto
termination
  by (relation "measure (\<lambda>(mem, addr, end_addr). end_addr - addr)") auto

declare signature_loop.simps [simp del]

definition signature_file :: "'c Simulator \<Rightarrow> string option" where
  "signature_file s =
     (if dump_signature s
      then Some (signature_loop (memory (bus s)) (unat (signature_begin s)) (unat (signature_end s)))
      else None)"

section \<open>Simulator::run\<close>

text \<open>
  The whole of \<^verbatim>\<open>run\<close>: the first evaluation under reset, the loop, the signature dump
  and the final presentation.  The result is the final session and the signature artifact.
\<close>

definition run_reset :: "('c VTop \<Rightarrow> 'c VTop) \<Rightarrow> 'c Simulator \<Rightarrow> 'c Simulator" where
  "run_reset eval s =
     (let t = (top s)\<lparr>reset := True, clock := False, io_instruction_valid := True,
                      io_vga_pixclk := False\<rparr>;
          t = eval t
      in s\<lparr>top := t, data_memory_read_word := 0, inst_memory_read_word := 0, counter := 0\<rparr>)"

definition run ::
  "('c VTop \<Rightarrow> 'c VTop) \<Rightarrow> (u64 \<Rightarrow> SDL_Event list) \<Rightarrow> 'c Simulator
     \<Rightarrow> sim_error + 'c Simulator \<times> string option" where
  "run eval poll s =
     (case run_loop eval poll (run_reset eval s) of
        Inl e \<Rightarrow> Inl e
      | Inr s \<Rightarrow>
          let sig = signature_file s;
              s = (case vga_display s of None \<Rightarrow> s
                   | Some d \<Rightarrow> s\<lparr>vga_display := Some (render (poll (main_time s)) d)\<rparr>)
          in Inr (s, sig))"


section \<open>Construction of a session\<close>

text \<open>
  The constructor \<^verbatim>\<open>Simulator(args)\<close> after \<^verbatim>\<open>parse_args\<close>: the options are given as
  values (halt address, capacity in words, tick budget, signature window, display flag);
  no image is loaded.  The core is handed in as constructed.
\<close>

definition Simulator_init ::
  "u32 \<Rightarrow> nat \<Rightarrow> u64 \<Rightarrow> (u32 \<times> u32) option \<Rightarrow> bool \<Rightarrow> 'c VTop \<Rightarrow> 'c Simulator" where
  "Simulator_init halt memory_words time sig enable_vga t =
     \<lparr>main_time = 0, max_sim_time = time, halt_address = halt, top = t,
      bus = \<lparr>memory = Memory_init memory_words, timer = TimerMMIO_init, uart = UartMMIO_init\<rparr>,
      dump_signature = (sig \<noteq> None),
      signature_begin = (case sig of None \<Rightarrow> 0 | Some (b, e) \<Rightarrow> b),
      signature_end = (case sig of None \<Rightarrow> 0 | Some (b, e) \<Rightarrow> e),
      vga_display = (if enable_vga then Some VGADisplay_init else None),
      data_memory_read_word = 0, inst_memory_read_word = 0, counter = 0, stdout = []\<rparr>"

section \<open>A core for exercising the driver\<close>

text \<open>
  A core with all pins low, and an evaluation that counts its calls and, at call number
  \<open>n\<close>, stores the halt sentinel at byte address 4 of Word Memory with all four strobes.
\<close>

definition VTop_init :: "'c \<Rightarrow> 'c VTop" where
  "VTop_init c =
     \<lparr>reset = False, clock = False, io_instruction_valid = False, io_vga_pixclk = False,
      io_memory_bundle_read_data = 0, io_instruction = 0, io_interrupt_flag = 0,
      io_deviceSelect = 0, io_memory_bundle_address = 0, io_memory_bundle_write_enable = False,
      io_memory_bundle_write_strobe_0 = False, io_memory_bundle_write_strobe_1 = False,
      io_memory_bundle_write_strobe_2 = False, io_memory_bundle_write_strobe_3 = False,
      io_memory_bundle_write_data = 0, io_instruction_address = 0, io_vga_rrggbb = 0,
      io_vga_activevideo = 0, io_vga_x_pos = 0, io_vga_y_pos = 0, io_vga_vsync = False,
      got_finish = False, core = c\<rparr>"

definition sentinel_core :: "nat \<Rightarrow> nat VTop \<Rightarrow> nat VTop" where
  "sentinel_core n t =
     t\<lparr>core := core t + 1,
       io_deviceSelect := 0, io_memory_bundle_address := 4,
       io_memory_bundle_write_enable := (core t + 1 = n),
       io_memory_bundle_write_strobe_0 := True, io_memory_bundle_write_strobe_1 := True,
       io_memory_bundle_write_strobe_2 := True, io_memory_bundle_write_strobe_3 := True,
       io_memory_bundle_write_data := 0xBABECAFE\<rparr>"

definition no_events :: "u64 \<Rightarrow> SDL_Event list" where
  "no_events t = []"

text \<open>A two-word memory with the register files as constructed, for exercising the decoder.\<close>

definition Bus_example :: Bus where
  "Bus_example = \<lparr>memory = [0x11111111, 0x22222222], timer = TimerMMIO_init, uart = UartMMIO_init\<rparr>"

text \<open>
  What is observed of a finished run of that core: the tick counter, the tick budget, the
  memory and the number of evaluations the core has counted.
\<close>

definition final_summary ::
  "sim_error + nat Simulator \<times> string option \<Rightarrow> (u64 \<times> u64 \<times> Memory \<times> nat) option" where
  "final_summary r =
     (case r of
        Inl e \<Rightarrow> None
      | Inr (s, sg) \<Rightarrow> Some (main_time s, max_sim_time s, memory (bus s), core (top s)))"

text \<open>
  A session of that core in its RUNNING phase: budget 1000, halt address 4, two words of
  memory, five ticks and six evaluations done.
\<close>

definition sentinel_session :: "nat Simulator" where
  "sentinel_session = (Simulator_init 4 2 1000 None False (VTop_init 6))\<lparr>main_time := 5\<rparr>"

text \<open>The tick counter and the standard output of a finished run of that core.\<close>

definition final_output ::
  "sim_error + nat Simulator \<times> string option \<Rightarrow> (u64 \<times> string) option" where
  "final_output r = (case r of Inl e \<Rightarrow> None | Inr (s, sg) \<Rightarrow> Some (main_time s, stdout s))"

section \<open>Properties of Word Memory\<close>

lemma lane_mask_0: "(0xFF::u32) = mask 8"
  by (simp add: mask_eq_exp_minus_1)

lemma lane_mask_1: "(0xFF00::u32) = push_bit 8 (mask 8)"
  by (simp add: mask_eq_exp_minus_1 push_bit_eq_mult)

lemma lane_mask_2: "(0xFF0000::u32) = push_bit 16 (mask 8)"
  by (simp add: mask_eq_exp_minus_1 push_bit_eq_mult)

lemma lane_mask_3: "(0xFF000000::u32) = push_bit 24 (mask 8)"
  by (simp add: mask_eq_exp_minus_1 push_bit_eq_mult)

lemma bit_write_mask_of:
  "bit (write_mask_of ws) n \<longleftrightarrow> n < 32 \<and> strobe_at ws (n div 8)"
  apply (cases ws)
  apply (simp add: write_mask_of_def Let_def lane_mask_0 lane_mask_1 lane_mask_2 lane_mask_3 bit_simps)
  apply (auto simp: bit_simps)
  done

lemma write_mask_of_no_strobe: "write_mask_of (False, False, False, False) = 0"
  by (simp add: write_mask_of_def)

lemma byte_lane_merge:
  assumes "i < 4"
  shows "byte_lane ((old AND NOT (write_mask_of ws)) OR (v AND write_mask_of ws)) i =
     (if strobe_at ws i then byte_lane v i else byte_lane old i)"
  using assms
  apply (simp add: byte_lane_def)
  apply (intro conjI impI bit_word_eqI)
   apply (auto simp: bit_simps bit_write_mask_of)
  done

lemma length_Memory_write: "length (Memory_write mem address v ws) = length mem"
  by (simp add: Memory_write_def Let_def)

text \<open>
  Claim C2.  For a byte address whose word index is within capacity, writing a value
  under a lane mask and reading the same address back gives a word whose byte lane \<open>i\<close>
  is byte \<open>i\<close> of the written value where strobe \<open>i\<close> is set and the byte stored
  before where it is clear.  A write with all four strobes clear leaves the whole memory
  as it was, at every address.
\<close>

theorem write_then_read_lanes:
  "(unat (address div 4) < length mem \<longrightarrow>
      (\<forall>i<4. byte_lane (Memory_read (Memory_write mem address v ws) address) i =
         (if strobe_at ws i then byte_lane v i else byte_lane (Memory_read mem address) i)))
   \<and> Memory_write mem address v (False, False, False, False) = mem"
proof (intro conjI impI allI)
  fix i :: nat
  assume r: "unat (address div 4) < length mem" and i: "i < 4"
  have "Memory_read (Memory_write mem address v ws) address =
        (Memory_read mem address AND NOT (write_mask_of ws)) OR (v AND write_mask_of ws)"
    using r by (simp add: Memory_read_def Memory_write_def Let_def)
  then show "byte_lane (Memory_read (Memory_write mem address v ws) address) i =
         (if strobe_at ws i then byte_lane v i else byte_lane (Memory_read mem address) i)"
    using byte_lane_merge [OF i] by simp
next
  show "Memory_write mem address v (False, False, False, False) = mem"
    by (simp add: Memory_write_def Let_def write_mask_of_no_strobe)
qed

theorem write_then_read_lanes_witness:
  "unat ((4::u64) div 4) < length [0x11111111, 0x22222222 :: u32]
   \<and> Memory_read (Memory_write [0x11111111, 0x22222222] 4 0xAABBCCDD (True, False, False, True)) 4
       = 0xAA2222DD
   \<and> byte_lane (0xAA2222DD :: u32) 0 = byte_lane (0xAABBCCDD :: u32) 0
   \<and> byte_lane (0xAA2222DD :: u32) 1 = byte_lane (0x22222222 :: u32) 1
   \<and> byte_lane (0xAA2222DD :: u32) 2 = byte_lane (0x22222222 :: u32) 2
   \<and> byte_lane (0xAA2222DD :: u32) 3 = byte_lane (0xAABBCCDD :: u32) 3"
  using write_then_read_lanes [of 4 "[0x11111111, 0x22222222]" "0xAABBCCDD" "(True, False, False, True)"]
  by (simp add: Memory_read_def Memory_write_def write_mask_of_def byte_lane_def)

lemma length_memory_bus_write:
  "length (memory (fst (bus_write b sel a v ws))) = length (memory b)"
  by (simp add: bus_write_def Let_def length_Memory_write split: prod.splits)

lemma tick_dispatch_fetch_out_of_range:
  assumes "length (memory (bus s)) \<le> unat (io_instruction_address (top s) div 4)"
  shows "inst_memory_read_word (tick_dispatch s) = 0
    \<and> (\<exists>out. stdout (tick_dispatch s) =
          stdout s @ out @ ''invalid read Inst address 0x''
            @ printf_08x (unat (io_instruction_address (top s) div 4 * 4)) @ endl)"
proof (cases "io_memory_bundle_write_enable (top s)")
  case False
  then show ?thesis
    using assms by (simp add: tick_dispatch_def Memory_readInst_def Let_def endl_def)
next
  case True
  obtain b out where w: "bus_write (bus s) (io_deviceSelect (top s)) (io_memory_bundle_address (top s))
      (io_memory_bundle_write_data (top s))
      (io_memory_bundle_write_strobe_0 (top s), io_memory_bundle_write_strobe_1 (top s),
       io_memory_bundle_write_strobe_2 (top s), io_memory_bundle_write_strobe_3 (top s)) = (b, out)"
    by (cases "bus_write (bus s) (io_deviceSelect (top s)) (io_memory_bundle_address (top s))
      (io_memory_bundle_write_data (top s))
      (io_memory_bundle_write_strobe_0 (top s), io_memory_bundle_write_strobe_1 (top s),
       io_memory_bundle_write_strobe_2 (top s), io_memory_bundle_write_strobe_3 (top s))")
  have "length (memory b) = length (memory (bus s))"
    using length_memory_bus_write [of "bus s" "io_deviceSelect (top s)"
        "io_memory_bundle_address (top s)" "io_memory_bundle_write_data (top s)"
        "(io_memory_bundle_write_strobe_0 (top s), io_memory_bundle_write_strobe_1 (top s),
          io_memory_bundle_write_strobe_2 (top s), io_memory_bundle_write_strobe_3 (top s))"] w
    by simp
  then show ?thesis
    using assms True w by (simp add: tick_dispatch_def Memory_readInst_def Let_def endl_def)
qed

text \<open>
  Claim C3.  For an address whose word index is outside the capacity: the data read
  returns 0 (a read returns a word and nothing else, so memory is as before); the
  instruction read returns 0 and prints the line
  \<^verbatim>\<open>invalid read Inst address 0x...\<close>; a write returns the memory unchanged.  In the
  loop body the fetch is part of the dispatch, which always yields the next session
  state: the fetched word is 0 there and the diagnostic is the end of the session's
  standard output.
\<close>

theorem out_of_range_access:
  "(length mem \<le> unat (address div 4) \<longrightarrow>
      Memory_read mem address = 0
      \<and> Memory_readInst mem address =
          (0, ''invalid read Inst address 0x'' @ printf_08x (unat (address div 4 * 4)) @ endl)
      \<and> Memory_write mem address v ws = mem)
   \<and> (length (memory (bus s)) \<le> unat (io_instruction_address (top s) div 4) \<longrightarrow>
      inst_memory_read_word (tick_dispatch s) = 0
      \<and> (\<exists>out. stdout (tick_dispatch s) =
            stdout s @ out @ ''invalid read Inst address 0x''
              @ printf_08x (unat (io_instruction_address (top s) div 4 * 4)) @ endl))"
  using tick_dispatch_fetch_out_of_range [of s]
  by (simp add: Memory_read_def Memory_readInst_def Memory_write_def Let_def endl_def)

lemma printf_08x_8: "printf_08x 8 = ''00000008''"
  by code_simp

theorem out_of_range_access_witness:
  "length [1, 2 :: u32] \<le> unat ((8::u64) div 4)
   \<and> Memory_read [1, 2] 8 = 0
   \<and> Memory_readInst [1, 2] 8 = (0, ''invalid read Inst address 0x00000008'' @ endl)
   \<and> Memory_write [1, 2] 8 0xFFFFFFFF (True, True, True, True) = [1, 2]
   \<and> length (memory (bus (Simulator_init 0 2 1000 None False ((VTop_init ())\<lparr>io_instruction_address := 8\<rparr>))))
        \<le> unat ((8::u64) div 4)
   \<and> inst_memory_read_word
        (tick_dispatch (Simulator_init 0 2 1000 None False ((VTop_init ())\<lparr>io_instruction_address := 8\<rparr>))) = 0
   \<and> stdout (tick_dispatch (Simulator_init 0 2 1000 None False ((VTop_init ())\<lparr>io_instruction_address := 8\<rparr>)))
        = ''invalid read Inst address 0x00000008'' @ endl"
  using out_of_range_access [of "[1, 2]" 8 "0xFFFFFFFF" "(True, True, True, True)"
      "Simulator_init 0 2 1000 None False ((VTop_init ())\<lparr>io_instruction_address := 8\<rparr>)"]
  by (simp add: printf_08x_8 Simulator_init_def VTop_init_def Memory_init_def tick_dispatch_def
      Memory_readInst_def Let_def)

section \<open>Properties of the bus decoder\<close>

lemma DEVICE_SHIFT_eq: "unat DEVICE_SHIFT = 29"
  by (simp add: DEVICE_SHIFT_def DEVICE_SELECT_BITS_def)

lemma DEVICE_MASK_eq: "DEVICE_MASK = mask 29"
  by (simp add: DEVICE_MASK_def DEVICE_SHIFT_eq mask_eq_exp_minus_1)

lemma effective_address_eq: "effective_address_of sel a = push_bit 29 sel OR (a AND mask 29)"
  by (simp add: effective_address_of_def DEVICE_SHIFT_eq DEVICE_MASK_eq)

lemma top_nibble: "(0xF0000000::u32) = push_bit 28 (mask 4)"
  by (simp add: mask_eq_exp_minus_1 push_bit_eq_mult)

lemma bit_top_nibble: "bit (ea AND (0xF0000000::u32)) n \<longleftrightarrow> 28 \<le> n \<and> n < 32 \<and> bit ea n"
  by (auto simp: top_nibble bit_simps)

lemma regions_exclusive:
  "\<not> (is_uart ea \<and> is_timer ea) \<and> \<not> (is_uart ea \<and> is_vga ea) \<and> \<not> (is_timer ea \<and> is_vga ea)"
  by (auto simp: is_uart_def is_timer_def is_vga_def UART_BASE_def TIMER_BASE_def VGA_BASE_def)

lemma selector_0_high_bits:
  "\<not> bit (effective_address_of 0 a) 29" "\<not> bit (effective_address_of 0 a) 30"
  "\<not> bit (effective_address_of 0 a) 31"
  by (simp_all add: effective_address_eq bit_simps)

lemma base_bits: "bit (0x40000000::u32) 30" "bit (0x80000000::u32) 31" "bit (0x30000000::u32) 29"
  by (simp_all add: bit_numeral_iff bit_iff_odd)

lemma selector_0_no_device:
  "\<not> is_uart (effective_address_of 0 a) \<and> \<not> is_timer (effective_address_of 0 a)
   \<and> \<not> is_vga (effective_address_of 0 a)"
proof (intro conjI notI)
  assume "is_uart (effective_address_of 0 a)"
  then have "bit (effective_address_of 0 a AND 0xF0000000) 30"
    by (simp add: is_uart_def UART_BASE_def base_bits)
  then show False using selector_0_high_bits by (simp add: bit_top_nibble)
next
  assume "is_timer (effective_address_of 0 a)"
  then have "bit (effective_address_of 0 a AND 0xF0000000) 31"
    by (simp add: is_timer_def TIMER_BASE_def base_bits)
  then show False using selector_0_high_bits by (simp add: bit_top_nibble)
next
  assume "is_vga (effective_address_of 0 a)"
  then have "bit (effective_address_of 0 a AND 0xF0000000) 29"
    by (simp add: is_vga_def VGA_BASE_def base_bits)
  then show False using selector_0_high_bits by (simp add: bit_top_nibble)
qed

lemma selector_split:
  assumes "sel < 8"
  shows "drop_bit 29 (effective_address_of sel a) = sel
    \<and> effective_address_of sel a AND mask 29 = a AND mask 29"
proof
  have s: "n < 3" if b: "bit sel n" for n
  proof -
    have "sel < 2 ^ 3" using assms by simp
    then have "take_bit 3 sel = sel" by (simp add: less_mask_eq take_bit_eq_mask)
    then have "bit (take_bit 3 sel) n" using b by simp
    then show "n < 3" by (simp add: bit_simps)
  qed
  show "drop_bit 29 (effective_address_of sel a) = sel"
    by (rule bit_word_eqI) (auto simp: effective_address_eq bit_simps dest: s bit_imp_le_length)
  show "effective_address_of sel a AND mask 29 = a AND mask 29"
    by (rule bit_word_eqI) (auto simp: effective_address_eq bit_simps)
qed

text \<open>
  Claim C1.  The effective address is \<open>(selector << 29) | (lowAddress & (2^29 - 1))\<close>;
  for a 3-bit selector its top three bits are the selector and its low 29 bits those of
  the low address.  No effective address lies in two of the UART, Timer and video
  regions, and none formed with selector 0 lies in any of them.  Selector 0 reads and
  writes Word Memory and nothing else; with another selector a UART address reaches only
  the UART, a Timer address only the Timer, and every other address (the video region
  included) reads 0 and leaves all three stores as they were, printing nothing.
\<close>

theorem bus_decoder_routes_to_one_target:
  "effective_address_of sel a = push_bit 29 sel OR (a AND (2 ^ 29 - 1))
   \<and> (sel < 8 \<longrightarrow> drop_bit 29 (effective_address_of sel a) = sel
         \<and> effective_address_of sel a AND (2 ^ 29 - 1) = a AND (2 ^ 29 - 1))
   \<and> \<not> (is_uart ea \<and> is_timer ea) \<and> \<not> (is_uart ea \<and> is_vga ea) \<and> \<not> (is_timer ea \<and> is_vga ea)
   \<and> \<not> is_uart (effective_address_of 0 a) \<and> \<not> is_timer (effective_address_of 0 a)
   \<and> \<not> is_vga (effective_address_of 0 a)
   \<and> (sel = 0 \<longrightarrow>
        bus_read b sel a = Memory_read (memory b) (ucast (effective_address_of sel a))
        \<and> bus_write b sel a v ws =
            (b\<lparr>memory := Memory_write (memory b) (ucast (effective_address_of sel a)) v ws\<rparr>, []))
   \<and> (sel \<noteq> 0 \<and> is_uart (effective_address_of sel a) \<longrightarrow>
        bus_read b sel a = UartMMIO_read (uart b) (effective_address_of sel a - UART_BASE)
        \<and> bus_write b sel a v ws =
            (b\<lparr>uart := fst (UartMMIO_write (uart b) (effective_address_of sel a - UART_BASE) v)\<rparr>,
             snd (UartMMIO_write (uart b) (effective_address_of sel a - UART_BASE) v)))
   \<and> (sel \<noteq> 0 \<and> is_timer (effective_address_of sel a) \<longrightarrow>
        bus_read b sel a = TimerMMIO_read (timer b) (effective_address_of sel a - TIMER_BASE)
        \<and> bus_write b sel a v ws =
            (b\<lparr>timer := TimerMMIO_write (timer b) (effective_address_of sel a - TIMER_BASE) v\<rparr>, []))
   \<and> (sel \<noteq> 0 \<and> \<not> is_uart (effective_address_of sel a) \<and> \<not> is_timer (effective_address_of sel a) \<longrightarrow>
        bus_read b sel a = 0 \<and> bus_write b sel a v ws = (b, []))"
proof -
  have m: "(2 ^ 29 - 1 :: u32) = mask 29"
    by (simp only: mask_eq_exp_minus_1)
  have p1: "effective_address_of sel a = push_bit 29 sel OR (a AND (2 ^ 29 - 1))"
    unfolding m by (rule effective_address_eq)
  have p2: "sel < 8 \<longrightarrow> drop_bit 29 (effective_address_of sel a) = sel
         \<and> effective_address_of sel a AND (2 ^ 29 - 1) = a AND (2 ^ 29 - 1)"
    unfolding m using selector_split [of sel a] by blast
  have p3: "sel = 0 \<longrightarrow>
        bus_read b sel a = Memory_read (memory b) (ucast (effective_address_of sel a))
        \<and> bus_write b sel a v ws =
            (b\<lparr>memory := Memory_write (memory b) (ucast (effective_address_of sel a)) v ws\<rparr>, [])"
    by (simp add: bus_read_def bus_write_def Let_def)
  have p4: "sel \<noteq> 0 \<and> is_uart (effective_address_of sel a) \<longrightarrow>
        bus_read b sel a = UartMMIO_read (uart b) (effective_address_of sel a - UART_BASE)
        \<and> bus_write b sel a v ws =
            (b\<lparr>uart := fst (UartMMIO_write (uart b) (effective_address_of sel a - UART_BASE) v)\<rparr>,
             snd (UartMMIO_write (uart b) (effective_address_of sel a - UART_BASE) v))"
    by (simp add: bus_read_def bus_write_def Let_def split: prod.splits)
  have x: "is_timer (effective_address_of sel a) \<Longrightarrow> \<not> is_uart (effective_address_of sel a)"
    using regions_exclusive by blast
  have p5: "sel \<noteq> 0 \<and> is_timer (effective_address_of sel a) \<longrightarrow>
        bus_read b sel a = TimerMMIO_read (timer b) (effective_address_of sel a - TIMER_BASE)
        \<and> bus_write b sel a v ws =
            (b\<lparr>timer := TimerMMIO_write (timer b) (effective_address_of sel a - TIMER_BASE) v\<rparr>, [])"
    by (simp add: bus_read_def bus_write_def Let_def x)
  have p6: "sel \<noteq> 0 \<and> \<not> is_uart (effective_address_of sel a) \<and> \<not> is_timer (effective_address_of sel a) \<longrightarrow>
        bus_read b sel a = 0 \<and> bus_write b sel a v ws = (b, [])"
    by (simp add: bus_read_def bus_write_def Let_def)
  show ?thesis
    using p1 p2 regions_exclusive [of ea] selector_0_no_device [of a] p3 p4 p5 p6
    by blast
qed

theorem bus_decoder_routes_to_one_target_witness:
  "(0::u32) < 8 \<and> effective_address_of 0 0xFFFFFFF4 = 0x1FFFFFF4
   \<and> bus_read Bus_example 0 4 = 0x22222222
   \<and> bus_write Bus_example 0 4 0xAABBCCDD (True, True, True, True)
       = (Bus_example\<lparr>memory := [0x11111111, 0xAABBCCDD]\<rparr>, [])
   \<and> (2::u32) < 8 \<and> effective_address_of 2 4 = 0x40000004 \<and> is_uart (effective_address_of 2 4)
   \<and> bus_read Bus_example 2 4 = 115200
   \<and> bus_write Bus_example 2 4 9600 (True, True, True, True)
       = (Bus_example\<lparr>uart := UartMMIO_init\<lparr>baudrate := 9600\<rparr>\<rparr>, [])
   \<and> (4::u32) < 8 \<and> effective_address_of 4 4 = 0x80000004 \<and> is_timer (effective_address_of 4 4)
   \<and> bus_read Bus_example 4 4 = 0
   \<and> bus_write Bus_example 4 4 77 (True, True, True, True)
       = (Bus_example\<lparr>timer := TimerMMIO_init\<lparr>limit := 77\<rparr>\<rparr>, [])
   \<and> (1::u32) < 8 \<and> effective_address_of 1 0x10000000 = 0x30000000
   \<and> is_vga (effective_address_of 1 0x10000000)
   \<and> bus_read Bus_example 1 0x10000000 = 0
   \<and> bus_write Bus_example 1 0x10000000 5 (True, True, True, True) = (Bus_example, [])
   \<and> (3::u32) < 8 \<and> effective_address_of 3 4 = 0x60000004
   \<and> bus_read Bus_example 3 4 = 0
   \<and> bus_write Bus_example 3 4 5 (True, True, True, True) = (Bus_example, [])"
  using bus_decoder_routes_to_one_target [of 0 4 "effective_address_of 0 4" Bus_example "0xAABBCCDD" "(True, True, True, True)"]
        bus_decoder_routes_to_one_target [of 2 4 "effective_address_of 2 4" Bus_example 9600 "(True, True, True, True)"]
        bus_decoder_routes_to_one_target [of 4 4 "effective_address_of 4 4" Bus_example 77 "(True, True, True, True)"]
        bus_decoder_routes_to_one_target [of 1 "0x10000000" "effective_address_of 1 0x10000000" Bus_example 5 "(True, True, True, True)"]
        bus_decoder_routes_to_one_target [of 3 4 "effective_address_of 3 4" Bus_example 5 "(True, True, True, True)"]
  by (simp add: effective_address_eq is_uart_def is_timer_def is_vga_def UART_BASE_def TIMER_BASE_def
      VGA_BASE_def Bus_example_def Memory_read_def Memory_write_def write_mask_of_def
      UartMMIO_read_def UartMMIO_write_def UartMMIO_init_def TimerMMIO_read_def TimerMMIO_write_def
      TimerMMIO_init_def mask_eq_exp_minus_1 push_bit_eq_mult)

section \<open>Properties of the UART register file\<close>

text \<open>
  Claim C4 as stated fails: the baud-rate register is readable.  At construction a read
  of the baud-rate offset \<open>0x4\<close>, which is not the receive offset \<open>0xC\<close>, returns
  115200, and after writing 9600 to it the read returns 9600.
\<close>

theorem uart_baudrate_readable_counterexample:
  "(0x4::u32) \<noteq> 0xC \<and> UartMMIO_read UartMMIO_init 0x4 = 115200 \<and> (115200::u32) \<noteq> 0
   \<and> UartMMIO_read (fst (UartMMIO_write UartMMIO_init 0x4 9600)) 0x4 = 9600"
  by (simp add: UartMMIO_read_def UartMMIO_write_def UartMMIO_init_def)

text \<open>
  Claim C4, amended.  Only the enable register is write-only.  For every UART state a
  read at the baud-rate offset \<open>0x4\<close> returns the stored baud rate (the value last written
  there), and a read at any offset other than the baud-rate and receive offsets returns
  0; reading the enable offset \<open>0x8\<close> returns 0 whatever flag is stored.
\<close>

theorem uart_read_registers:
  "(offset \<noteq> 0x4 \<and> offset \<noteq> 0xC \<longrightarrow> UartMMIO_read u offset = 0)
   \<and> UartMMIO_read u 0x8 = 0
   \<and> UartMMIO_read (fst (UartMMIO_write u 0x8 v)) 0x8 = 0
   \<and> UartMMIO_read u 0x4 = baudrate u
   \<and> UartMMIO_read (fst (UartMMIO_write u 0x4 v)) 0x4 = v"
  by (simp add: UartMMIO_read_def UartMMIO_write_def)

theorem uart_read_registers_witness:
  "(0x10::u32) \<noteq> 0x4 \<and> (0x10::u32) \<noteq> 0xC
   \<and> UartMMIO_read (UartMMIO_init\<lparr>uart_enabled := True\<rparr>) 0x10 = 0
   \<and> UartMMIO_read (UartMMIO_init\<lparr>uart_enabled := True\<rparr>) 0x8 = 0
   \<and> UartMMIO_read (UartMMIO_init\<lparr>uart_enabled := True\<rparr>) 0x4 = 115200"
  using uart_read_registers [of "0x10" "UartMMIO_init\<lparr>uart_enabled := True\<rparr>" 1]
  by (simp add: UartMMIO_init_def)

lemma last_rx_write: "last_rx (fst (UartMMIO_write u offset v)) = last_rx u"
  by (simp add: UartMMIO_write_def Let_def)

lemma last_rx_writes: "last_rx (UartMMIO_writes u ws) = last_rx u"
  unfolding UartMMIO_writes_def
  by (induction ws arbitrary: u) (auto simp: last_rx_write)

lemma unat_low_byte: "unat (ucast (v AND 0xFF :: u32) :: u8) = unat v mod 256"
proof -
  have "(ucast (v AND 0xFF :: u32) :: u8) = ucast v"
    by (rule bit_word_eqI) (auto simp: bit_simps lane_mask_0)
  then show ?thesis by (simp add: unsigned_ucast_eq take_bit_eq_mod)
qed

lemma unat_and_low_byte: "unat (v AND 0xFF :: u32) = unat v mod 256"
proof -
  have "v AND 0xFF = take_bit 8 v"
    by (simp only: lane_mask_0 take_bit_eq_mask)
  then have "unat (v AND 0xFF) = take_bit 8 (unat v)"
    by (simp only: unsigned_take_bit_eq)
  then show ?thesis by (simp add: take_bit_eq_mod)
qed

lemma char_of_65: "char_of (65::nat) = CHR ''A''"
  by code_simp

text \<open>
  Claim C5.  A write to the transmit offset \<open>0x10\<close> while the enable flag is set appends
  one character to the output stream (the log and standard output), and its code is the
  low 8 bits of the written value; while the flag is clear the write changes nothing and
  prints nothing.  The flag is set exactly by a nonzero write to the enable offset.  A
  read of the receive offset \<open>0xC\<close> is not changed by any write and is 0 after every
  sequence of writes since construction.
\<close>

theorem uart_transmit_and_receive:
  "(uart_enabled u \<longrightarrow>
      UartMMIO_write u 0x10 v =
        (u\<lparr>tx_log := tx_log u @ [char_of (unat v mod 256)]\<rparr>, [char_of (unat v mod 256)]))
   \<and> (of_char (char_of (unat v mod 256)) :: nat) = unat (v AND 0xFF)
   \<and> (\<not> uart_enabled u \<longrightarrow> UartMMIO_write u 0x10 v = (u, []))
   \<and> uart_enabled (fst (UartMMIO_write u 0x8 e)) = (e \<noteq> 0)
   \<and> (e \<noteq> 0 \<longrightarrow>
        UartMMIO_write (fst (UartMMIO_write u 0x8 e)) 0x10 v =
          ((fst (UartMMIO_write u 0x8 e))\<lparr>tx_log := tx_log u @ [char_of (unat v mod 256)]\<rparr>,
           [char_of (unat v mod 256)]))
   \<and> UartMMIO_read (fst (UartMMIO_write u offset v)) 0xC = UartMMIO_read u 0xC
   \<and> UartMMIO_read (UartMMIO_writes UartMMIO_init ws) 0xC = 0"
proof -
  have r: "UartMMIO_read (UartMMIO_writes UartMMIO_init ws) 0xC = 0"
    by (simp add: UartMMIO_read_def last_rx_writes) (simp add: UartMMIO_init_def)
  have k: "UartMMIO_read (fst (UartMMIO_write u offset v)) 0xC = UartMMIO_read u 0xC"
    by (simp add: UartMMIO_read_def last_rx_write)
  show ?thesis
    using r k
    by (simp add: UartMMIO_write_def Let_def unat_low_byte unat_and_low_byte)
qed

theorem uart_transmit_and_receive_witness:
  "uart_enabled (UartMMIO_init\<lparr>uart_enabled := True\<rparr>)
   \<and> UartMMIO_write (UartMMIO_init\<lparr>uart_enabled := True\<rparr>) 0x10 0x141
       = (UartMMIO_init\<lparr>uart_enabled := True, tx_log := ''A''\<rparr>, ''A'')
   \<and> \<not> uart_enabled UartMMIO_init
   \<and> UartMMIO_write UartMMIO_init 0x10 0x141 = (UartMMIO_init, [])
   \<and> (7::u32) \<noteq> 0
   \<and> UartMMIO_write (fst (UartMMIO_write UartMMIO_init 0x8 7)) 0x10 0x141
       = (UartMMIO_init\<lparr>uart_enabled := True, tx_log := ''A''\<rparr>, ''A'')"
  using uart_transmit_and_receive [of "UartMMIO_init\<lparr>uart_enabled := True\<rparr>" "0x141" 7]
        uart_transmit_and_receive [of "UartMMIO_init" "0x141" 7]
  by (simp add: UartMMIO_init_def UartMMIO_write_def char_of_65)

section \<open>Properties of the frame compositor\<close>

lemma two_bit_channel: "c AND 3 = 0 \<or> c AND 3 = 1 \<or> c AND 3 = 2 \<or> c AND (3::u8) = 3"
proof -
  have "c AND 3 \<le> 3"
    by (rule word_and_le1)
  then have "unat (c AND 3) \<le> 3"
    by (simp add: word_le_nat_alt)
  then have "unat (c AND 3) = 0 \<or> unat (c AND 3) = 1 \<or> unat (c AND 3) = 2 \<or> unat (c AND 3) = 3"
    by arith
  moreover have "c AND 3 = of_nat k" if "unat (c AND 3) = k" for k
    using that by auto
  ultimately show ?thesis
    by fastforce
qed

lemma expansion_table:
  "unat (vga2bit_to_8bit (c AND 3)) = [0, 85, 170, 255] ! unat (c AND 3)"
  using two_bit_channel [of c] by (auto simp: vga2bit_to_8bit_def)

lemma update_pixel_inactive:
  "activevideo = 0 \<or> \<not> unat x_pos < H_RES \<or> \<not> unat y_pos < V_RES \<Longrightarrow>
   update_pixel d rrggbb activevideo x_pos y_pos = d"
  by (auto simp: update_pixel_def)

lemma update_pixel_active:
  assumes "length (framebuffer d) = H_RES * V_RES * 4" "activevideo \<noteq> 0"
    "unat x_pos < H_RES" "unat y_pos < V_RES"
  shows "framebuffer (update_pixel d rrggbb activevideo x_pos y_pos) =
     (framebuffer d)
       [(unat y_pos * H_RES + unat x_pos) * 4 := vga2bit_to_8bit (rrggbb AND 3),
        (unat y_pos * H_RES + unat x_pos) * 4 + 1 := vga2bit_to_8bit (drop_bit 2 rrggbb AND 3),
        (unat y_pos * H_RES + unat x_pos) * 4 + 2 := vga2bit_to_8bit (drop_bit 4 rrggbb AND 3),
        (unat y_pos * H_RES + unat x_pos) * 4 + 3 := 255]"
  using assms(2-4) by (simp add: update_pixel_def Let_def)

lemma pixel_index_in_frame:
  assumes "x < H_RES" "y < V_RES"
  shows "(y * H_RES + x) * 4 + 3 < H_RES * V_RES * 4"
proof -
  have "y * 640 \<le> 479 * 640"
    using assms by (intro mult_le_mono1) (simp add: V_RES_def)
  then show ?thesis
    using assms by (simp add: H_RES_def V_RES_def)
qed

text \<open>
  Claim C6.  The expansion of a 2-bit channel is 0, 85, 170, 255 for 0, 1, 2, 3.  With
  active-video asserted and (x, y) inside the 640 x 480 frame, the four bytes of the
  pixel at (x, y) become the expansions of bits 1..0, 3..2 and 5..4 of the sample and
  255 for the opacity, each channel from its own two bits, every other byte of the frame
  staying as it was.  With active-video deasserted or (x, y) outside the frame the
  compositor is unchanged.
\<close>

theorem update_pixel_expands_channels:
  "vga2bit_to_8bit 0 = 0 \<and> vga2bit_to_8bit 1 = 85 \<and> vga2bit_to_8bit 2 = 170 \<and> vga2bit_to_8bit 3 = 255
   \<and> (length (framebuffer d) = H_RES * V_RES * 4 \<and> activevideo \<noteq> 0
        \<and> unat x_pos < H_RES \<and> unat y_pos < V_RES \<longrightarrow>
       (let idx = (unat y_pos * H_RES + unat x_pos) * 4;
            fb = framebuffer (update_pixel d rrggbb activevideo x_pos y_pos)
        in unat (fb ! idx) = [0, 85, 170, 255] ! unat (rrggbb AND 3)
           \<and> unat (fb ! (idx + 1)) = [0, 85, 170, 255] ! unat (drop_bit 2 rrggbb AND 3)
           \<and> unat (fb ! (idx + 2)) = [0, 85, 170, 255] ! unat (drop_bit 4 rrggbb AND 3)
           \<and> fb ! (idx + 3) = 255
           \<and> length fb = length (framebuffer d)
           \<and> (\<forall>j. j < idx \<or> idx + 3 < j \<longrightarrow> fb ! j = framebuffer d ! j)
           \<and> update_pixel d rrggbb activevideo x_pos y_pos = d\<lparr>framebuffer := fb\<rparr>))
   \<and> (activevideo = 0 \<or> \<not> unat x_pos < H_RES \<or> \<not> unat y_pos < V_RES \<longrightarrow>
       update_pixel d rrggbb activevideo x_pos y_pos = d)"
proof (intro conjI impI)
  show "vga2bit_to_8bit 0 = 0" "vga2bit_to_8bit 1 = 85" "vga2bit_to_8bit 2 = 170"
    "vga2bit_to_8bit 3 = 255"
    by (simp_all add: vga2bit_to_8bit_def)
next
  assume "activevideo = 0 \<or> \<not> unat x_pos < H_RES \<or> \<not> unat y_pos < V_RES"
  then show "update_pixel d rrggbb activevideo x_pos y_pos = d"
    by (rule update_pixel_inactive)
next
  assume a: "length (framebuffer d) = H_RES * V_RES * 4 \<and> activevideo \<noteq> 0
        \<and> unat x_pos < H_RES \<and> unat y_pos < V_RES"
  define idx where "idx = (unat y_pos * H_RES + unat x_pos) * 4"
  have fb: "framebuffer (update_pixel d rrggbb activevideo x_pos y_pos) =
     (framebuffer d)
       [idx := vga2bit_to_8bit (rrggbb AND 3),
        idx + 1 := vga2bit_to_8bit (drop_bit 2 rrggbb AND 3),
        idx + 2 := vga2bit_to_8bit (drop_bit 4 rrggbb AND 3),
        idx + 3 := 255]"
    using a update_pixel_active [of d activevideo x_pos y_pos rrggbb] by (simp add: idx_def)
  have r: "idx + 3 < length (framebuffer d)"
    using a pixel_index_in_frame [of "unat x_pos" "unat y_pos"] by (simp add: idx_def)
  have u: "update_pixel d rrggbb activevideo x_pos y_pos =
      d\<lparr>framebuffer := framebuffer (update_pixel d rrggbb activevideo x_pos y_pos)\<rparr>"
    using a by (simp add: update_pixel_def Let_def)
  have "unat (framebuffer (update_pixel d rrggbb activevideo x_pos y_pos) ! idx)
          = [0, 85, 170, 255] ! unat (rrggbb AND 3)
      \<and> unat (framebuffer (update_pixel d rrggbb activevideo x_pos y_pos) ! (idx + 1))
          = [0, 85, 170, 255] ! unat (drop_bit 2 rrggbb AND 3)
      \<and> unat (framebuffer (update_pixel d rrggbb activevideo x_pos y_pos) ! (idx + 2))
          = [0, 85, 170, 255] ! unat (drop_bit 4 rrggbb AND 3)
      \<and> framebuffer (update_pixel d rrggbb activevideo x_pos y_pos) ! (idx + 3) = 255
      \<and> length (framebuffer (update_pixel d rrggbb activevideo x_pos y_pos)) = length (framebuffer d)
      \<and> (\<forall>j. j < idx \<or> idx + 3 < j \<longrightarrow>
            framebuffer (update_pixel d rrggbb activevideo x_pos y_pos) ! j = framebuffer d ! j)"
    using r by (simp add: fb expansion_table nth_list_update)
  then show "let idx = (unat y_pos * H_RES + unat x_pos) * 4;
            fb = framebuffer (update_pixel d rrggbb activevideo x_pos y_pos)
        in unat (fb ! idx) = [0, 85, 170, 255] ! unat (rrggbb AND 3)
           \<and> unat (fb ! (idx + 1)) = [0, 85, 170, 255] ! unat (drop_bit 2 rrggbb AND 3)
           \<and> unat (fb ! (idx + 2)) = [0, 85, 170, 255] ! unat (drop_bit 4 rrggbb AND 3)
           \<and> fb ! (idx + 3) = 255
           \<and> length fb = length (framebuffer d)
           \<and> (\<forall>j. j < idx \<or> idx + 3 < j \<longrightarrow> fb ! j = framebuffer d ! j)
           \<and> update_pixel d rrggbb activevideo x_pos y_pos = d\<lparr>framebuffer := fb\<rparr>"
    using u unfolding Let_def idx_def [symmetric] by blast
qed

theorem update_pixel_expands_channels_witness:
  "length (framebuffer VGADisplay_init) = H_RES * V_RES * 4 \<and> (1::u8) \<noteq> 0
   \<and> unat (1::u16) < H_RES \<and> unat (0::u16) < V_RES
   \<and> unat (framebuffer (update_pixel VGADisplay_init 0x27 1 1 0) ! 4) = 255
   \<and> unat (framebuffer (update_pixel VGADisplay_init 0x27 1 1 0) ! 5) = 85
   \<and> unat (framebuffer (update_pixel VGADisplay_init 0x27 1 1 0) ! 6) = 170
   \<and> framebuffer (update_pixel VGADisplay_init 0x27 1 1 0) ! 7 = 255
   \<and> \<not> unat (640::u16) < H_RES
   \<and> update_pixel VGADisplay_init 0x27 1 640 0 = VGADisplay_init
   \<and> update_pixel VGADisplay_init 0x27 0 1 0 = VGADisplay_init"
proof -
  have c: "(0x27::u8) AND 3 = 3" "drop_bit 2 (0x27::u8) AND 3 = 1" "drop_bit 4 (0x27::u8) AND 3 = 2"
    by (simp_all add: drop_bit_eq_div)
  have l: "length (framebuffer VGADisplay_init) = H_RES * V_RES * 4"
    by (simp add: VGADisplay_init_def)
  show ?thesis
    using update_pixel_expands_channels [of VGADisplay_init 1 1 0 "0x27"]
          update_pixel_expands_channels [of VGADisplay_init 1 640 0 "0x27"]
          update_pixel_expands_channels [of VGADisplay_init 0 1 0 "0x27"]
    by (simp add: l c Let_def) (simp add: H_RES_def V_RES_def)
qed

lemma presented_check_vsync:
  "presented (check_vsync ev d v) =
     (if prev_vsync d \<and> \<not> v then presented d @ [framebuffer d] else presented d)"
  by (simp add: check_vsync_def render_def Let_def)

lemma prev_vsync_check_vsync: "prev_vsync (check_vsync ev d v) = v"
  by (simp add: check_vsync_def Let_def)

lemma framebuffer_check_vsync: "framebuffer (check_vsync ev d v) = framebuffer d"
  by (simp add: check_vsync_def render_def Let_def)

lemma presented_check_vsyncs:
  "length (presented (check_vsyncs d samples)) =
     length (presented d) + falling_edges (prev_vsync d) (map fst samples)"
proof (induction samples arbitrary: d)
  case Nil
  show ?case by simp
next
  case (Cons sample samples)
  obtain v ev where s: "sample = (v, ev)"
    by (cases sample)
  show ?case
    unfolding s using Cons.IH [of "check_vsync ev d v"]
    by (simp add: presented_check_vsync prev_vsync_check_vsync)
qed

text \<open>
  Claim C7.  One vsync check hands the current frame to the display sink exactly when
  the stored previous sample is high and the current one is low, and hands over nothing
  on a rising edge or a steady level; what it keeps for the next check is the current
  sample.  So over any sequence of samples the number of frames handed over is the
  number of falling edges, the sample before the first being the stored bit (high at
  construction).
\<close>

theorem vsync_falling_edge_handoff:
  "presented (check_vsync ev d v) =
     (if prev_vsync d \<and> \<not> v then presented d @ [framebuffer d] else presented d)
   \<and> prev_vsync (check_vsync ev d v) = v
   \<and> framebuffer (check_vsync ev d v) = framebuffer d
   \<and> length (presented (check_vsyncs d samples)) =
       length (presented d) + falling_edges (prev_vsync d) (map fst samples)
   \<and> length (presented (check_vsyncs VGADisplay_init samples)) =
       falling_edges True (map fst samples)"
  using presented_check_vsyncs [of VGADisplay_init samples]
  by (simp add: presented_check_vsync prev_vsync_check_vsync framebuffer_check_vsync
      presented_check_vsyncs) (simp add: VGADisplay_init_def)

theorem vsync_falling_edge_handoff_witness:
  "presented (check_vsyncs VGADisplay_init [(True, []), (False, []), (False, []), (True, []), (False, [])])
     = [framebuffer VGADisplay_init, framebuffer VGADisplay_init]
   \<and> falling_edges True (map fst [(True, []), (False, []), (False, []), (True, []), (False, [])]) = 2
   \<and> presented (check_vsyncs VGADisplay_init [(False, [])]) = [framebuffer VGADisplay_init]"
  using vsync_falling_edge_handoff [of "[]" VGADisplay_init True
      "[(True, []), (False, []), (False, []), (True, []), (False, [])]"]
  by (simp add: check_vsync_def render_def Let_def) (simp add: VGADisplay_init_def)

section \<open>Properties of the signature extractor\<close>

lemma hex_digit_in_alphabet: "hex_digit d \<in> set ''0123456789abcdef''"
  unfolding hex_digit_def by (rule nth_mem) simp

lemma hex_digits_alphabet: "set (hex_digits n) \<subseteq> set ''0123456789abcdef''"
proof (induction n rule: hex_digits.induct)
  case (1 n)
  show ?case
  proof (cases "n < 16")
    case True
    then show ?thesis
      using hex_digit_in_alphabet [of n] by (subst hex_digits.simps) simp
  next
    case False
    then show ?thesis
      using 1 hex_digit_in_alphabet [of "n mod 16"] by (subst hex_digits.simps) simp
  qed
qed

lemma length_hex_digits: "n < 16 ^ k \<Longrightarrow> 0 < k \<Longrightarrow> length (hex_digits n) \<le> k"
proof (induction n arbitrary: k rule: hex_digits.induct)
  case (1 n)
  show ?case
  proof (cases "n < 16")
    case True
    then show ?thesis
      using "1.prems" by (subst hex_digits.simps) simp
  next
    case False
    obtain j where k: "k = Suc j"
      using "1.prems" by (cases k) auto
    have "0 < j"
      using False "1.prems" k by (cases j) auto
    moreover have "n div 16 < 16 ^ j"
      using "1.prems" k by (simp add: less_mult_imp_div_less mult.commute)
    ultimately have "length (hex_digits (n div 16)) \<le> j"
      using "1.IH" [OF False] by blast
    then show ?thesis
      using False k by (subst hex_digits.simps) simp
  qed
qed

lemma length_printf_08x_u32: "length (printf_08x (unat (w :: u32))) = 8"
proof -
  have "unat w < 16 ^ 8"
    using unsigned_less [of w, where 'a = nat] by simp
  then have "length (hex_digits (unat w)) \<le> 8"
    by (rule length_hex_digits) simp
  then show ?thesis
    by (simp add: printf_08x_def Let_def)
qed

lemma printf_08x_alphabet: "set (printf_08x n) \<subseteq> set ''0123456789abcdef''"
proof -
  have "set (replicate (8 - length (hex_digits n)) CHR ''0'') \<subseteq> {CHR ''0''}"
    by (auto simp: set_replicate_conv_if)
  then show ?thesis
    using hex_digits_alphabet [of n] by (auto simp: printf_08x_def Let_def)
qed

lemma signature_line_format:
  "length (signature_line mem addr) = 8
   \<and> set (signature_line mem addr) \<subseteq> set ''0123456789abcdef''
   \<and> signature_line mem addr = printf_08x (unat (Memory_read mem (of_nat addr)))"
  using printf_08x_alphabet [of "unat (Memory_read mem (of_nat addr))"]
  by (simp add: signature_line_def length_printf_08x_u32)

lemma signature_count_step:
  "(end_addr - addr + 3) div 4 = Suc ((end_addr - (addr + 4) + 3) div (4::nat))" if "addr < end_addr"
proof (cases "addr + 4 \<le> end_addr")
  case True
  then obtain d where d: "end_addr = addr + 4 + d"
    using le_Suc_ex by blast
  show ?thesis
    unfolding d by simp
next
  case False
  then have "end_addr - (addr + 4) = 0" "end_addr - addr + 3 < 8" "4 \<le> end_addr - addr + 3"
    using that by simp_all
  then show ?thesis
    by (simp add: div_nat_eqI)
qed

lemma signature_loop_lines:
  "signature_loop mem addr end_addr =
     concat (map (\<lambda>k. signature_line mem (addr + 4 * k) @ endl) [0..<(end_addr - addr + 3) div 4])"
proof (induction mem addr end_addr rule: signature_loop.induct)
  case (1 mem addr end_addr)
  show ?case
  proof (cases "addr < end_addr")
    case False
    then show ?thesis
      by (subst signature_loop.simps) simp
  next
    case True
    define n where "n = (end_addr - (addr + 4) + 3) div 4"
    have n: "(end_addr - addr + 3) div 4 = Suc n" "(end_addr - (addr + 4) + 3) div 4 = n"
      using signature_count_step [OF True] unfolding n_def by simp_all
    have sh: "map (\<lambda>k. signature_line mem (addr + 4 * k) @ endl) [0..<Suc n] =
        (signature_line mem addr @ endl)
        # map (\<lambda>k. signature_line mem (addr + 4 + 4 * k) @ endl) [0..<n]"
      by (simp add: upt_conv_Cons map_Suc_upt [symmetric] add.assoc del: upt_Suc)
    show ?thesis
      using True "1.IH" n by (subst signature_loop.simps) (simp add: sh del: upt_Suc)
  qed
qed

lemma hex_digits_unfold:
  "n < 16 \<Longrightarrow> hex_digits n = [hex_digit n]"
  "\<not> n < 16 \<Longrightarrow> hex_digits n = hex_digits (n div 16) @ [hex_digit (n mod 16)]"
  by (subst hex_digits.simps, simp)+

lemma printf_08x_examples:
  "printf_08x 0x11111111 = ''11111111''" "printf_08x 0x22222222 = ''22222222''"
  "printf_08x 0xBABECAFE = ''babecafe''"
  by (simp_all add: printf_08x_def hex_digits_unfold hex_digit_def)

text \<open>
  Claim C9.  When a signature window with begin \<open>\<le>\<close> end is configured, the artifact is
  the concatenation, in ascending address order, of one line per address begin,
  begin + 4, ... below end; each line is the \<^verbatim>\<open>%08x\<close> rendering of the word read at that
  address, which is exactly 8 characters, all lowercase hexadecimal digits (so no
  \<^verbatim>\<open>0x\<close> prefix), followed by a newline.  The number of lines is (end - begin) / 4
  rounded up, which is (end - begin) / 4 when end - begin is a multiple of 4.
\<close>

theorem signature_artifact_format:
  "(dump_signature s \<and> signature_begin s \<le> signature_end s \<longrightarrow>
      signature_file s =
        Some (concat (map (\<lambda>k. signature_line (memory (bus s)) (unat (signature_begin s) + 4 * k) @ endl)
                [0..<(unat (signature_end s) - unat (signature_begin s) + 3) div 4])))
   \<and> length (signature_line mem addr) = 8
   \<and> set (signature_line mem addr) \<subseteq> set ''0123456789abcdef''
   \<and> signature_line mem addr = printf_08x (unat (Memory_read mem (of_nat addr)))
   \<and> endl = [CHR 0x0A]
   \<and> ((unat (signature_end s) - unat (signature_begin s)) mod 4 = 0 \<longrightarrow>
        (unat (signature_end s) - unat (signature_begin s) + 3) div 4 =
        (unat (signature_end s) - unat (signature_begin s)) div 4)"
proof -
  have a: "(n + 3) div 4 = n div 4" if "n mod 4 = 0" for n :: nat
  proof -
    from that obtain q where "n = 4 * q"
      by auto
    then show ?thesis by simp
  qed
  have f: "dump_signature s \<and> signature_begin s \<le> signature_end s \<longrightarrow>
      signature_file s =
        Some (concat (map (\<lambda>k. signature_line (memory (bus s)) (unat (signature_begin s) + 4 * k) @ endl)
                [0..<(unat (signature_end s) - unat (signature_begin s) + 3) div 4]))"
    by (simp add: signature_file_def signature_loop_lines)
  have e: "endl = [CHR 0x0A]"
    by (simp add: endl_def)
  have a': "(unat (signature_end s) - unat (signature_begin s)) mod 4 = 0 \<longrightarrow>
        (unat (signature_end s) - unat (signature_begin s) + 3) div 4 =
        (unat (signature_end s) - unat (signature_begin s)) div 4"
    using a by (intro impI)
  note l = signature_line_format [of mem addr]
  show ?thesis
    by (rule conjI [OF f conjI [OF conjunct1 [OF l] conjI [OF conjunct1 [OF conjunct2 [OF l]]
          conjI [OF conjunct2 [OF conjunct2 [OF l]] conjI [OF e a']]]]])
qed

theorem signature_artifact_format_witness:
  "dump_signature ((Simulator_init 0 2 1000 (Some (0, 8)) False (VTop_init ()))\<lparr>bus := Bus_example\<rparr>)
   \<and> signature_begin ((Simulator_init 0 2 1000 (Some (0, 8)) False (VTop_init ()))\<lparr>bus := Bus_example\<rparr>)
       \<le> signature_end ((Simulator_init 0 2 1000 (Some (0, 8)) False (VTop_init ()))\<lparr>bus := Bus_example\<rparr>)
   \<and> signature_file ((Simulator_init 0 2 1000 (Some (0, 8)) False (VTop_init ()))\<lparr>bus := Bus_example\<rparr>)
       = Some (''11111111'' @ endl @ ''22222222'' @ endl)
   \<and> (unat (8::u32) - unat (0::u32)) mod 4 = 0
   \<and> (unat (8::u32) - unat (0::u32)) div 4 = 2"
proof -
  have u: "[0..<2::nat] = [0, 1]"
    by code_simp
  show ?thesis
    using signature_artifact_format
      [of "(Simulator_init 0 2 1000 (Some (0, 8)) False (VTop_init ()))\<lparr>bus := Bus_example\<rparr>"
          "[0x11111111, 0x22222222]" 0]
    by (simp add: Simulator_init_def Bus_example_def Memory_read_def printf_08x_examples u
        signature_line_def)
qed

section \<open>Properties of the clock driver\<close>

lemma tick_eval_fields:
  "main_time (tick_eval eval s) = main_time s + 1"
  "max_sim_time (tick_eval eval s) = max_sim_time s"
  "halt_address (tick_eval eval s) = halt_address s"
  "bus (tick_eval eval s) = bus s"
  "vga_display (tick_eval eval s) = vga_display s"
  by (simp_all add: tick_eval_def Let_def)

lemma tick_dispatch_fields:
  "main_time (tick_dispatch s) = main_time s"
  "max_sim_time (tick_dispatch s) = max_sim_time s"
  "halt_address (tick_dispatch s) = halt_address s"
  "top (tick_dispatch s) = top s"
  "vga_display (tick_dispatch s) = vga_display s"
  by (simp_all add: tick_dispatch_def Let_def split: prod.splits)

lemma tick_display_fields:
  assumes "tick_display events s = (r, s')"
  shows "main_time s' = main_time s \<and> max_sim_time s' = max_sim_time s
    \<and> halt_address s' = halt_address s \<and> top s' = top s \<and> bus s' = bus s"
  using assms by (auto simp: tick_display_def Let_def split: option.splits if_splits)

lemma tick_display_None:
  "vga_display s = None \<Longrightarrow> tick_display events s = (Continue, s)"
  by (simp add: tick_display_def)

lemma tick_progress_fields:
  assumes "tick_progress s = Inr s'"
  shows "main_time s' = main_time s \<and> max_sim_time s' = max_sim_time s
    \<and> halt_address s' = halt_address s \<and> top s' = top s \<and> bus s' = bus s
    \<and> vga_display s' = vga_display s"
  using assms by (auto simp: tick_progress_def split: if_splits)

lemma progress_divisor_zero_iff: "(progress_divisor s = 0) = (max_sim_time s < 100)"
proof -
  have "unat (max_sim_time s div 100) = unat (max_sim_time s) div 100"
    by (simp add: unat_div)
  moreover have "(max_sim_time s div 100 = 0) = (unat (max_sim_time s div 100) = 0)"
    by (simp add: unat_eq_0)
  ultimately show ?thesis
    by (simp add: progress_divisor_def word_less_nat_alt div_eq_0_iff)
qed

lemma tick_progress_error_iff: "(tick_progress s = Inl DivisionByZero) = (max_sim_time s < 100)"
  using progress_divisor_zero_iff [of s] by (simp add: tick_progress_def)

lemma tick_fields:
  assumes "tick eval poll s = Inr (r, s')"
  shows "main_time s' = main_time s + 1 \<and> max_sim_time s' = max_sim_time s
    \<and> halt_address s' = halt_address s \<and> top s' = top (tick_eval eval s)
    \<and> bus s' = bus (tick_dispatch (tick_eval eval s))"
proof -
  define u where "u = tick_dispatch (tick_eval eval s)"
  obtain r1 u1 where d: "tick_display (poll (main_time u)) u = (r1, u1)"
    by (cases "tick_display (poll (main_time u)) u")
  note f = tick_display_fields [OF d]
  have u: "main_time u = main_time s + 1" "max_sim_time u = max_sim_time s"
    "halt_address u = halt_address s" "top u = top (tick_eval eval s)"
    by (simp_all add: u_def tick_dispatch_fields tick_eval_fields)
  show ?thesis
  proof (cases r1)
    case Break
    then have "s' = u1"
      using assms d by (simp add: tick_def u_def [symmetric] Let_def)
    then show ?thesis
      using f u by (simp add: u_def)
  next
    case Continue
    show ?thesis
    proof (cases "tick_halt u1")
      case Break
      then have "s' = u1"
        using assms d Continue by (simp add: tick_def u_def [symmetric] Let_def)
      then show ?thesis
        using f u by (simp add: u_def)
    next
      case c: Continue
      then have "tick_progress u1 = Inr s'"
        using assms d Continue
        by (simp add: tick_def u_def [symmetric] Let_def split: sum.splits)
      then show ?thesis
        using tick_progress_fields [of u1 s'] f u by (simp add: u_def)
    qed
  qed
qed

lemma tick_defined:
  assumes "100 \<le> max_sim_time s"
  shows "\<exists>r s'. tick eval poll s = Inr (r, s')"
proof -
  define u where "u = tick_dispatch (tick_eval eval s)"
  obtain r1 u1 where d: "tick_display (poll (main_time u)) u = (r1, u1)"
    by (cases "tick_display (poll (main_time u)) u")
  have "max_sim_time u1 = max_sim_time s"
    using tick_display_fields [OF d] by (simp add: u_def tick_dispatch_fields tick_eval_fields)
  then have "tick_progress u1 \<noteq> Inl DivisionByZero"
    using assms tick_progress_error_iff [of u1] by (simp add: not_less)
  then obtain s2 where "tick_progress u1 = Inr s2"
    by (cases "tick_progress u1") (auto intro: sim_error.exhaust)
  then show ?thesis
    using d by (cases r1; cases "tick_halt u1") (simp_all add: tick_def u_def [symmetric] Let_def)
qed

lemma tick_error_small_budget:
  assumes "tick eval poll s = Inl e"
  shows "max_sim_time s < 100"
  using assms tick_defined [of s eval poll] by (cases "max_sim_time s < 100") (auto simp: not_less)

lemma tick_undefined:
  assumes "max_sim_time s < 100" "vga_display s = None" "halt_address s = 0"
  shows "tick eval poll s = Inl DivisionByZero"
proof -
  define u where "u = tick_dispatch (tick_eval eval s)"
  have u: "vga_display u = None" "halt_address u = 0" "max_sim_time u < 100"
    using assms by (simp_all add: u_def tick_dispatch_fields tick_eval_fields)
  have "tick_progress u = Inl DivisionByZero"
    using u tick_progress_error_iff [of u] by simp
  then show ?thesis
    using u by (simp add: tick_def u_def [symmetric] Let_def tick_display_None tick_halt_def)
qed

lemma run_loop_defined:
  "100 \<le> max_sim_time s \<Longrightarrow> \<exists>s'. run_loop eval poll s = Inr s'"
proof (induction eval poll s rule: run_loop.induct)
  case (1 eval poll s)
  show ?case
  proof (cases "loop_condition s")
    case False
    then show ?thesis
      by (subst run_loop.simps) simp
  next
    case True
    obtain r s1 where t: "tick eval poll s = Inr (r, s1)"
      using tick_defined [OF "1.prems"] by blast
    show ?thesis
    proof (cases r)
      case Break
      then show ?thesis
        using True t by (subst run_loop.simps) simp
    next
      case Continue
      have "100 \<le> max_sim_time s1"
        using tick_fields [OF t] "1.prems" by simp
      then obtain s' where "run_loop eval poll s1 = Inr s'"
        using "1.IH" [OF True t [unfolded Continue] refl refl] Continue by blast
      then show ?thesis
        using True t Continue by (subst run_loop.simps) simp
    qed
  qed
qed

lemma tick_halts:
  assumes "halt_address s \<noteq> 0"
    and "Memory_read (memory (bus (tick_dispatch (tick_eval eval s)))) (ucast (halt_address s)) = 0xBABECAFE"
  shows "\<exists>s'. tick eval poll s = Inr (Break, s')"
proof -
  define u where "u = tick_dispatch (tick_eval eval s)"
  obtain r1 u1 where d: "tick_display (poll (main_time u)) u = (r1, u1)"
    by (cases "tick_display (poll (main_time u)) u")
  have "halt_address u1 = halt_address s" "bus u1 = bus u"
    using tick_display_fields [OF d] by (simp_all add: u_def tick_dispatch_fields tick_eval_fields)
  then have "tick_halt u1 = Break"
    using assms by (simp add: tick_halt_def u_def)
  then show ?thesis
    using d by (cases r1) (simp_all add: tick_def u_def [symmetric] Let_def)
qed

lemma run_loop_halts:
  assumes "loop_condition s" "halt_address s \<noteq> 0"
    and "Memory_read (memory (bus (tick_dispatch (tick_eval eval s)))) (ucast (halt_address s)) = 0xBABECAFE"
  shows "\<exists>s'. run_loop eval poll s = Inr s' \<and> tick eval poll s = Inr (Break, s')
    \<and> main_time s' = main_time s + 1 \<and> main_time s' \<le> max_sim_time s
    \<and> max_sim_time s' = max_sim_time s
    \<and> (main_time s' < max_sim_time s) = (main_time s + 1 \<noteq> max_sim_time s)
    \<and> top s' = top (tick_eval eval s)"
proof -
  obtain s' where t: "tick eval poll s = Inr (Break, s')"
    using tick_halts [OF assms(2,3)] by blast
  have r: "run_loop eval poll s = Inr s'"
    using assms(1) t by (subst run_loop.simps) simp
  have "main_time s < max_sim_time s"
    using assms(1) by (simp add: loop_condition_def)
  then have "main_time s + 1 \<le> max_sim_time s"
    by (rule inc_le)
  then show ?thesis
    using t r tick_fields [OF t] by (auto simp: order_less_le)
qed

lemma sentinel_write_reaches_memory:
  assumes "io_memory_bundle_write_enable (top s)" "io_deviceSelect (top s) = 0"
    and "ucast (effective_address_of 0 (io_memory_bundle_address (top s))) div 4 = (ucast a :: u64) div 4"
    and "unat ((ucast a :: u64) div 4) < length (memory (bus s))"
    and "io_memory_bundle_write_strobe_0 (top s)" "io_memory_bundle_write_strobe_1 (top s)"
      "io_memory_bundle_write_strobe_2 (top s)" "io_memory_bundle_write_strobe_3 (top s)"
    and "io_memory_bundle_write_data (top s) = v"
  shows "Memory_read (memory (bus (tick_dispatch s))) (ucast a) = v"
proof -
  have m: "write_mask_of (True, True, True, True) = - 1"
    by (simp add: write_mask_of_def)
  show ?thesis
    using assms
    by (simp add: tick_dispatch_def bus_write_def Let_def Memory_read_def Memory_write_def m
        split: prod.splits)
qed

lemma run_top:
  "map_sum id (\<lambda>(sf, sg). (top sf, main_time sf)) (run eval poll s0) =
   map_sum id (\<lambda>s'. (top s', main_time s')) (run_loop eval poll (run_reset eval s0))"
  by (simp add: run_def Let_def split: sum.splits option.splits)

lemma sentinel_core_idle_tick:
  assumes "vga_display s = None" "halt_address s = 4" "max_sim_time s = 100"
    and "core (top s) = unat (main_time s) + 1" "memory (bus s) = [0, 0]"
    and "main_time s < 99" "\<not> got_finish (top s)"
  shows "\<exists>s'. tick (sentinel_core 101) no_events s = Inr (Continue, s')
    \<and> vga_display s' = None \<and> halt_address s' = 4 \<and> max_sim_time s' = 100
    \<and> core (top s') = unat (main_time s') + 1 \<and> memory (bus s') = [0, 0]
    \<and> main_time s' = main_time s + 1 \<and> \<not> got_finish (top s')"
proof -
  define u where "u = tick_eval (sentinel_core 101) s"
  have n: "unat (main_time s) < 99"
    using assms(6) by (simp add: word_less_nat_alt)
  then have m: "unat (main_time s + 1) = unat (main_time s) + 1"
    by (simp add: unat_word_ariths)
  have u: "core (top u) = unat (main_time s) + 2" "\<not> got_finish (top u)"
    "\<not> io_memory_bundle_write_enable (top u)" "bus u = bus s" "vga_display u = None"
    "halt_address u = 4" "max_sim_time u = 100" "main_time u = main_time s + 1"
    using assms n by (simp_all add: u_def tick_eval_def Let_def sentinel_core_def)
  define w where "w = tick_dispatch u"
  have w: "top w = top u" "bus w = bus s" "vga_display w = None" "halt_address w = 4"
    "max_sim_time w = 100" "main_time w = main_time s + 1"
    using u by (simp_all add: w_def tick_dispatch_def Let_def split: prod.splits)
  have h: "tick_halt w = Continue"
    using w assms(5) by (simp add: tick_halt_def Memory_read_def)
  have "progress_divisor w \<noteq> 0"
    using w progress_divisor_zero_iff [of w] by simp
  then obtain s' where p: "tick_progress w = Inr s'"
    by (cases "main_time w mod progress_divisor w = 0") (auto simp: tick_progress_def)
  have t: "tick (sentinel_core 101) no_events s = Inr (Continue, s')"
    using w h p
    by (simp add: tick_def Let_def u_def [symmetric] w_def [symmetric] tick_display_None)
  show ?thesis
    using t tick_progress_fields [OF p] w u m assms(5) by simp
qed

lemma sentinel_core_last_tick:
  assumes "vga_display s = None" "halt_address s = 4" "max_sim_time s = 100"
    and "core (top s) = unat (main_time s) + 1" "memory (bus s) = [0, 0]"
    and "main_time s = 99" "\<not> got_finish (top s)"
  shows "\<exists>s'. run_loop (sentinel_core 101) no_events s = Inr s'
    \<and> main_time s' = 100 \<and> max_sim_time s' = 100 \<and> memory (bus s') = [0, 0xBABECAFE]
    \<and> core (top s') = 101 \<and> vga_display s' = None"
proof -
  define u where "u = tick_eval (sentinel_core 101) s"
  have u: "core (top u) = 101" "io_memory_bundle_write_enable (top u)"
    "io_deviceSelect (top u) = 0" "io_memory_bundle_address (top u) = 4"
    "io_memory_bundle_write_strobe_0 (top u)" "io_memory_bundle_write_strobe_1 (top u)"
    "io_memory_bundle_write_strobe_2 (top u)" "io_memory_bundle_write_strobe_3 (top u)"
    "io_memory_bundle_write_data (top u) = 0xBABECAFE" "bus u = bus s" "vga_display u = None"
    using assms by (simp_all add: u_def tick_eval_def Let_def sentinel_core_def)
  have e: "effective_address_of 0 4 = 4"
    by (simp add: effective_address_eq mask_eq_exp_minus_1)
  have b: "bus (tick_dispatch u) = (bus s)\<lparr>memory := [0, 0xBABECAFE]\<rparr>"
    using u assms(5)
    by (simp add: tick_dispatch_def Let_def bus_write_def e Memory_write_def write_mask_of_def
        split: prod.splits)
  have c: "loop_condition s"
    using assms by (simp add: loop_condition_def)
  have h: "Memory_read (memory (bus (tick_dispatch (tick_eval (sentinel_core 101) s))))
      (ucast (halt_address s)) = 0xBABECAFE"
    using b assms(2) by (simp add: u_def [symmetric] Memory_read_def)
  obtain s' where s': "run_loop (sentinel_core 101) no_events s = Inr s'"
    "tick (sentinel_core 101) no_events s = Inr (Break, s')"
    using run_loop_halts [OF c _ h, of no_events] assms(2) by auto
  have "vga_display (tick_dispatch u) = None"
    using u by (simp add: tick_dispatch_fields)
  then have v: "vga_display s' = None"
    using s'(2)
    by (auto simp: tick_def Let_def u_def [symmetric] tick_display_None
        split: outcome.splits sum.splits)
  show ?thesis
    using s'(1) tick_fields [OF s'(2)] assms u b v by (simp add: u_def [symmetric])
qed

lemma sentinel_core_run_loop:
  assumes "vga_display s = None" "halt_address s = 4" "max_sim_time s = 100"
    and "core (top s) = unat (main_time s) + 1" "memory (bus s) = [0, 0]"
    and "main_time s \<le> 99" "\<not> got_finish (top s)"
  shows "\<exists>s'. run_loop (sentinel_core 101) no_events s = Inr s'
    \<and> main_time s' = 100 \<and> max_sim_time s' = 100 \<and> memory (bus s') = [0, 0xBABECAFE]
    \<and> core (top s') = 101 \<and> vga_display s' = None"
  using assms
proof (induction "99 - unat (main_time s)" arbitrary: s)
  case 0
  have "unat (main_time s) \<le> 99"
    using "0.prems"(6) by (simp add: word_le_nat_alt)
  then have "unat (main_time s) = unat (99 :: u64)"
    using "0.hyps" by simp
  then have "main_time s = 99"
    by (simp only: word_unat_eq_iff)
  then show ?case
    using sentinel_core_last_tick [of s] "0.prems" by blast
next
  case (Suc n)
  have lt: "main_time s < 99"
    using Suc.hyps(2) by (simp add: word_less_nat_alt)
  obtain s1 where s1: "tick (sentinel_core 101) no_events s = Inr (Continue, s1)"
    "vga_display s1 = None" "halt_address s1 = 4" "max_sim_time s1 = 100"
    "core (top s1) = unat (main_time s1) + 1" "memory (bus s1) = [0, 0]"
    "main_time s1 = main_time s + 1" "\<not> got_finish (top s1)"
    using sentinel_core_idle_tick [OF Suc.prems(1-5) lt Suc.prems(7)] by blast
  have u: "unat (main_time s1) = unat (main_time s) + 1"
    using lt s1(7) by (simp add: word_less_nat_alt unat_word_ariths)
  have n: "n = 99 - unat (main_time s1)"
    using Suc.hyps(2) u by simp
  have le: "main_time s1 \<le> 99"
    using lt u by (simp add: word_less_nat_alt word_le_nat_alt)
  have "main_time s < 100"
    using lt by (simp add: word_less_nat_alt)
  then have c: "loop_condition s"
    using Suc.prems by (simp add: loop_condition_def)
  have "run_loop (sentinel_core 101) no_events s = run_loop (sentinel_core 101) no_events s1"
    using c s1(1) by (subst run_loop.simps) simp
  then show ?case
    using Suc.hyps(1) [OF n s1(2-6) le s1(8)] by simp
qed

text \<open>
  Claim C8 as stated fails on the last tick of the budget.  With budget 100 and halt
  address 4, a core that stores the sentinel at address 4 during tick 100 (its 101st
  evaluation, one evaluation preceding the loop) ends the run with the tick counter at
  100, which is the budget and not below it; memory was all zero before that write.
\<close>

theorem halt_on_last_tick_counterexample:
  "final_summary (run (sentinel_core 101) no_events (Simulator_init 4 2 100 None False (VTop_init 0)))
     = Some (100, 100, [0, 0xBABECAFE], 101)
   \<and> \<not> ((100::u64) < 100)"
proof -
  define s where "s = run_reset (sentinel_core 101) (Simulator_init 4 2 100 None False (VTop_init 0))"
  have r: "replicate 2 (0::u32) = [0, 0]"
    by (simp add: numeral_2_eq_2)
  have i: "vga_display s = None" "halt_address s = 4" "max_sim_time s = 100"
    "core (top s) = unat (main_time s) + 1" "memory (bus s) = [0, 0]"
    "main_time s \<le> 99" "\<not> got_finish (top s)"
    by (simp_all add: s_def run_reset_def Simulator_init_def VTop_init_def sentinel_core_def
        Memory_init_def r Let_def)
  obtain s' where s': "run_loop (sentinel_core 101) no_events s = Inr s'"
    "main_time s' = 100" "max_sim_time s' = 100" "memory (bus s') = [0, 0xBABECAFE]"
    "core (top s') = 101" "vga_display s' = None"
    using sentinel_core_run_loop [OF i] by blast
  show ?thesis
    using s' by (simp add: final_summary_def run_def s_def [symmetric] Let_def)
qed

text \<open>
  Claim C8, amended.  With a nonzero halt address A configured, a tick whose dispatch
  leaves the sentinel word at A (as a full-word write of the sentinel to A's word within
  capacity does) ends the loop in that same tick, by the halt check or by a quit request
  checked just before it.  The final tick counter is the counter before the tick plus
  one; it is at most the tick budget, and below it exactly when the tick was not the
  last of the budget.  The core as left by that tick's evaluation is the core of the
  final state, of the loop and of the whole run: nothing evaluates it again.
\<close>

theorem halt_sentinel_ends_run:
  "(io_memory_bundle_write_enable (top (tick_eval eval s))
     \<and> io_deviceSelect (top (tick_eval eval s)) = 0
     \<and> ucast (effective_address_of 0 (io_memory_bundle_address (top (tick_eval eval s)))) div 4
         = (ucast (halt_address s) :: u64) div 4
     \<and> unat ((ucast (halt_address s) :: u64) div 4) < length (memory (bus s))
     \<and> io_memory_bundle_write_strobe_0 (top (tick_eval eval s))
     \<and> io_memory_bundle_write_strobe_1 (top (tick_eval eval s))
     \<and> io_memory_bundle_write_strobe_2 (top (tick_eval eval s))
     \<and> io_memory_bundle_write_strobe_3 (top (tick_eval eval s))
     \<and> io_memory_bundle_write_data (top (tick_eval eval s)) = 0xBABECAFE
     \<longrightarrow> Memory_read (memory (bus (tick_dispatch (tick_eval eval s)))) (ucast (halt_address s))
           = 0xBABECAFE)
   \<and> (loop_condition s \<and> halt_address s \<noteq> 0
       \<and> Memory_read (memory (bus (tick_dispatch (tick_eval eval s)))) (ucast (halt_address s))
           = 0xBABECAFE
     \<longrightarrow> (\<exists>s'. run_loop eval poll s = Inr s' \<and> tick eval poll s = Inr (Break, s')
            \<and> main_time s' = main_time s + 1 \<and> main_time s' \<le> max_sim_time s
            \<and> max_sim_time s' = max_sim_time s
            \<and> (main_time s' < max_sim_time s) = (main_time s + 1 \<noteq> max_sim_time s)
            \<and> top s' = top (tick_eval eval s)))
   \<and> map_sum id (\<lambda>(sf, sg). (top sf, main_time sf)) (run eval poll s0) =
      map_sum id (\<lambda>s'. (top s', main_time s')) (run_loop eval poll (run_reset eval s0))"
proof (intro conjI impI)
  assume "io_memory_bundle_write_enable (top (tick_eval eval s))
     \<and> io_deviceSelect (top (tick_eval eval s)) = 0
     \<and> ucast (effective_address_of 0 (io_memory_bundle_address (top (tick_eval eval s)))) div 4
         = (ucast (halt_address s) :: u64) div 4
     \<and> unat ((ucast (halt_address s) :: u64) div 4) < length (memory (bus s))
     \<and> io_memory_bundle_write_strobe_0 (top (tick_eval eval s))
     \<and> io_memory_bundle_write_strobe_1 (top (tick_eval eval s))
     \<and> io_memory_bundle_write_strobe_2 (top (tick_eval eval s))
     \<and> io_memory_bundle_write_strobe_3 (top (tick_eval eval s))
     \<and> io_memory_bundle_write_data (top (tick_eval eval s)) = 0xBABECAFE"
  then show "Memory_read (memory (bus (tick_dispatch (tick_eval eval s)))) (ucast (halt_address s))
           = 0xBABECAFE"
    using sentinel_write_reaches_memory [of "tick_eval eval s" "halt_address s" "0xBABECAFE"]
    by (simp add: tick_eval_fields)
next
  assume "loop_condition s \<and> halt_address s \<noteq> 0
       \<and> Memory_read (memory (bus (tick_dispatch (tick_eval eval s)))) (ucast (halt_address s))
           = 0xBABECAFE"
  then show "\<exists>s'. run_loop eval poll s = Inr s' \<and> tick eval poll s = Inr (Break, s')
            \<and> main_time s' = main_time s + 1 \<and> main_time s' \<le> max_sim_time s
            \<and> max_sim_time s' = max_sim_time s
            \<and> (main_time s' < max_sim_time s) = (main_time s + 1 \<noteq> max_sim_time s)
            \<and> top s' = top (tick_eval eval s)"
    using run_loop_halts [of s eval poll] by blast
next
  show "map_sum id (\<lambda>(sf, sg). (top sf, main_time sf)) (run eval poll s0) =
      map_sum id (\<lambda>s'. (top s', main_time s')) (run_loop eval poll (run_reset eval s0))"
    by (rule run_top)
qed

theorem halt_sentinel_ends_run_witness:
  "loop_condition sentinel_session \<and> halt_address sentinel_session \<noteq> 0
   \<and> io_memory_bundle_write_enable (top (tick_eval (sentinel_core 7) sentinel_session))
   \<and> Memory_read (memory (bus (tick_dispatch (tick_eval (sentinel_core 7) sentinel_session)))) 4
       = 0xBABECAFE
   \<and> map_sum id main_time (run_loop (sentinel_core 7) no_events sentinel_session) = Inr 6
   \<and> (6::u64) < max_sim_time sentinel_session"
proof -
  have e: "effective_address_of 0 4 = 4"
    by (simp add: effective_address_eq mask_eq_exp_minus_1)
  have c: "loop_condition sentinel_session" "halt_address sentinel_session \<noteq> 0"
    "halt_address sentinel_session = 4" "main_time sentinel_session = 5"
    "max_sim_time sentinel_session = 1000"
    by (simp_all add: sentinel_session_def loop_condition_def Simulator_init_def VTop_init_def)
  have w: "io_memory_bundle_write_enable (top (tick_eval (sentinel_core 7) sentinel_session))
     \<and> io_deviceSelect (top (tick_eval (sentinel_core 7) sentinel_session)) = 0
     \<and> ucast (effective_address_of 0
          (io_memory_bundle_address (top (tick_eval (sentinel_core 7) sentinel_session)))) div 4
         = (ucast (halt_address sentinel_session) :: u64) div 4
     \<and> unat ((ucast (halt_address sentinel_session) :: u64) div 4) < length (memory (bus sentinel_session))
     \<and> io_memory_bundle_write_strobe_0 (top (tick_eval (sentinel_core 7) sentinel_session))
     \<and> io_memory_bundle_write_strobe_1 (top (tick_eval (sentinel_core 7) sentinel_session))
     \<and> io_memory_bundle_write_strobe_2 (top (tick_eval (sentinel_core 7) sentinel_session))
     \<and> io_memory_bundle_write_strobe_3 (top (tick_eval (sentinel_core 7) sentinel_session))
     \<and> io_memory_bundle_write_data (top (tick_eval (sentinel_core 7) sentinel_session)) = 0xBABECAFE"
    by (simp add: sentinel_session_def tick_eval_def Let_def sentinel_core_def Simulator_init_def
        VTop_init_def Memory_init_def e)
  show ?thesis
    using halt_sentinel_ends_run [of "sentinel_core 7" sentinel_session no_events sentinel_session] w c
    by auto
qed

lemma dec_digits_small: "n < 10 \<Longrightarrow> dec_digits n = [''0123456789'' ! n]"
  by (subst dec_digits.simps) simp

lemma percent_of_budget_100:
  assumes "t \<le> (100::u64)"
  shows "unat (t * 100 div 100) = unat t"
proof -
  have "unat t \<le> 100"
    using assms by (simp add: word_le_nat_alt)
  then have "unat (t * 100) = unat t * 100"
    by (simp add: unat_word_ariths)
  then show ?thesis
    by (simp add: unat_div)
qed

lemma sentinel_core_tick_reports:
  assumes "vga_display s = None" "halt_address s = 4" "max_sim_time s = 100"
    and "memory (bus s) = [0, 0]" "io_instruction_address (top s) = 0"
    and "core (top s) + 1 \<noteq> n" "main_time s < 100"
  shows "\<exists>s'. tick (sentinel_core n) no_events s = Inr (Continue, s')
    \<and> vga_display s' = None \<and> halt_address s' = 4 \<and> max_sim_time s' = 100
    \<and> memory (bus s') = [0, 0] \<and> io_instruction_address (top s') = 0
    \<and> core (top s') = core (top s) + 1 \<and> got_finish (top s') = got_finish (top s)
    \<and> main_time s' = main_time s + 1
    \<and> stdout s' = stdout s @ ''Simulation progress: '' @ dec_digits (unat (main_time s + 1))
          @ ''%'' @ endl"
proof -
  define u where "u = tick_eval (sentinel_core n) s"
  have u: "core (top u) = core (top s) + 1" "got_finish (top u) = got_finish (top s)"
    "\<not> io_memory_bundle_write_enable (top u)" "bus u = bus s" "vga_display u = None"
    "halt_address u = 4" "max_sim_time u = 100" "main_time u = main_time s + 1"
    "io_instruction_address (top u) = 0" "stdout u = stdout s"
    using assms by (simp_all add: u_def tick_eval_def Let_def sentinel_core_def)
  define w where "w = tick_dispatch u"
  have w: "top w = top u" "bus w = bus s" "vga_display w = None" "halt_address w = 4"
    "max_sim_time w = 100" "main_time w = main_time s + 1" "stdout w = stdout s"
    using u assms(4)
    by (simp_all add: w_def tick_dispatch_def Let_def Memory_readInst_def split: prod.splits)
  have h: "tick_halt w = Continue"
    using w assms(4) by (simp add: tick_halt_def Memory_read_def)
  have "main_time s + 1 \<le> 100"
    using assms(7) by (rule inc_le)
  then have d: "unat (main_time w * 100 div max_sim_time w) = unat (main_time s + 1)"
    using w percent_of_budget_100 [of "main_time s + 1"] by simp
  have p: "tick_progress w = Inr (w\<lparr>stdout := stdout s @ ''Simulation progress: ''
      @ dec_digits (unat (main_time s + 1)) @ ''%'' @ endl\<rparr>)"
    using w d by (simp add: tick_progress_def progress_divisor_def)
  have t: "tick (sentinel_core n) no_events s =
      Inr (Continue, w\<lparr>stdout := stdout s @ ''Simulation progress: ''
        @ dec_digits (unat (main_time s + 1)) @ ''%'' @ endl\<rparr>)"
    using w h p
    by (simp add: tick_def Let_def u_def [symmetric] w_def [symmetric] tick_display_None)
  show ?thesis
    using t w u assms(4) by simp
qed

lemma sentinel_core_tick_skips:
  assumes "vga_display s = None" "halt_address s = 4"
    and "memory (bus s) = [0, 0]" "io_instruction_address (top s) = 0"
    and "core (top s) + 1 = n"
  shows "\<exists>s'. tick (sentinel_core n) no_events s = Inr (Break, s')
    \<and> vga_display s' = None \<and> main_time s' = main_time s + 1 \<and> stdout s' = stdout s"
proof -
  define u where "u = tick_eval (sentinel_core n) s"
  have u: "io_memory_bundle_write_enable (top u)"
    "io_deviceSelect (top u) = 0" "io_memory_bundle_address (top u) = 4"
    "io_memory_bundle_write_strobe_0 (top u)" "io_memory_bundle_write_strobe_1 (top u)"
    "io_memory_bundle_write_strobe_2 (top u)" "io_memory_bundle_write_strobe_3 (top u)"
    "io_memory_bundle_write_data (top u) = 0xBABECAFE" "bus u = bus s" "vga_display u = None"
    "halt_address u = 4" "main_time u = main_time s + 1"
    "io_instruction_address (top u) = 0" "stdout u = stdout s"
    using assms by (simp_all add: u_def tick_eval_def Let_def sentinel_core_def)
  have e: "effective_address_of 0 4 = 4"
    by (simp add: effective_address_eq mask_eq_exp_minus_1)
  define w where "w = tick_dispatch u"
  have w: "memory (bus w) = [0, 0xBABECAFE]" "vga_display w = None" "halt_address w = 4"
    "main_time w = main_time s + 1" "stdout w = stdout s"
    using u assms(3)
    by (simp_all add: w_def tick_dispatch_def Let_def bus_write_def e Memory_write_def
        write_mask_of_def Memory_readInst_def split: prod.splits)
  have h: "tick_halt w = Break"
    using w by (simp add: tick_halt_def Memory_read_def)
  have "tick (sentinel_core n) no_events s = Inr (Break, w)"
    using w h by (simp add: tick_def Let_def u_def [symmetric] w_def [symmetric] tick_display_None)
  then show ?thesis
    using w by simp
qed

lemma run_loop_continue:
  "loop_condition s \<Longrightarrow> tick eval poll s = Inr (Continue, s') \<Longrightarrow>
   run_loop eval poll s = run_loop eval poll s'"
  by (subst run_loop.simps) simp

lemma run_loop_break:
  "loop_condition s \<Longrightarrow> tick eval poll s = Inr (Break, s') \<Longrightarrow> run_loop eval poll s = Inr s'"
  by (subst run_loop.simps) simp

lemma tick_eval_budget:
  "tick_eval eval (s\<lparr>max_sim_time := b\<rparr>) = (tick_eval eval s)\<lparr>max_sim_time := b\<rparr>"
  by (simp add: tick_eval_def Let_def)

lemma tick_dispatch_budget:
  "tick_dispatch (s\<lparr>max_sim_time := b\<rparr>) = (tick_dispatch s)\<lparr>max_sim_time := b\<rparr>"
  by (simp add: tick_dispatch_def Let_def case_prod_beta)

lemma tick_display_budget:
  "tick_display ev (s\<lparr>max_sim_time := b\<rparr>) =
     map_prod id (\<lambda>u. u\<lparr>max_sim_time := b\<rparr>) (tick_display ev s)"
  by (simp add: tick_display_def Let_def split: option.splits)

lemma tick_halt_budget: "tick_halt (s\<lparr>max_sim_time := b\<rparr>) = tick_halt s"
  by (simp add: tick_halt_def)

lemma tick_break_budget_free:
  "(map_sum id fst (tick eval poll (s\<lparr>max_sim_time := b\<rparr>)) = Inr Break) =
   (map_sum id fst (tick eval poll s) = Inr Break)"
proof -
  define u where "u = tick_dispatch (tick_eval eval s)"
  obtain r1 u1 where d: "tick_display (poll (main_time u)) u = (r1, u1)"
    by (cases "tick_display (poll (main_time u)) u")
  have l: "map_sum id fst (tick eval poll s) = Inr Break \<longleftrightarrow> r1 = Break \<or> tick_halt u1 = Break"
    using d
    by (cases r1; cases "tick_halt u1"; cases "tick_progress u1")
       (simp_all add: tick_def Let_def u_def [symmetric])
  have r: "map_sum id fst (tick eval poll (s\<lparr>max_sim_time := b\<rparr>)) = Inr Break
      \<longleftrightarrow> r1 = Break \<or> tick_halt u1 = Break"
    using d
    by (cases r1; cases "tick_halt u1"; cases "tick_progress (u1\<lparr>max_sim_time := b\<rparr>)")
       (simp_all add: tick_def Let_def tick_eval_budget tick_dispatch_budget tick_display_budget
          tick_halt_budget u_def [symmetric])
  show ?thesis
    using l r by simp
qed

lemma tick_reaches_progress:
  assumes "map_sum id fst (tick eval poll s) \<noteq> Inr Break"
  shows "\<exists>u. map_sum id snd (tick eval poll s) = tick_progress u
    \<and> main_time u = main_time s + 1 \<and> max_sim_time u = max_sim_time s"
proof -
  define u where "u = tick_dispatch (tick_eval eval s)"
  obtain r1 u1 where d: "tick_display (poll (main_time u)) u = (r1, u1)"
    by (cases "tick_display (poll (main_time u)) u")
  have f: "main_time u1 = main_time s + 1" "max_sim_time u1 = max_sim_time s"
    using tick_display_fields [OF d] by (simp_all add: u_def tick_dispatch_fields tick_eval_fields)
  have "r1 = Continue" "tick_halt u1 = Continue"
    using assms d
    by (cases r1; cases "tick_halt u1"; simp add: tick_def Let_def u_def [symmetric])+
  then have "map_sum id snd (tick eval poll s) = tick_progress u1"
    using d by (simp add: tick_def Let_def u_def [symmetric] split: sum.splits)
  then show ?thesis
    using f by blast
qed

lemma tick_small_budget:
  assumes "max_sim_time s < 100"
  shows "tick eval poll s = Inl DivisionByZero \<or> (\<exists>s'. tick eval poll s = Inr (Break, s'))"
proof (cases "map_sum id fst (tick eval poll s) = Inr Break")
  case True
  then show ?thesis
    by (cases "tick eval poll s") auto
next
  case False
  then obtain u where u: "map_sum id snd (tick eval poll s) = tick_progress u"
    "max_sim_time u = max_sim_time s"
    using tick_reaches_progress by blast
  have "tick_progress u = Inl DivisionByZero"
    using assms u(2) tick_progress_error_iff [of u] by simp
  then show ?thesis
    using u(1) by (cases "tick eval poll s") auto
qed

lemma tick_no_break:
  assumes "vga_display s = None"
    and "Memory_read (memory (bus (tick_dispatch (tick_eval eval s)))) (ucast (halt_address s))
          \<noteq> 0xBABECAFE"
  shows "map_sum id fst (tick eval poll s) \<noteq> Inr Break"
proof -
  define u where "u = tick_dispatch (tick_eval eval s)"
  have v: "vga_display u = None" "halt_address u = halt_address s"
    using assms(1) by (simp_all add: u_def tick_dispatch_fields tick_eval_fields)
  have "tick_halt u = Continue"
    using assms(2) v by (simp add: tick_halt_def u_def)
  then show ?thesis
    using v by (cases "tick_progress u")
      (simp_all add: tick_def Let_def u_def [symmetric] tick_display_None)
qed

text \<open>
  Claim C10 as stated fails on a tick that ends the run.  With budget 100 the divisor is
  1, so every tick number is a multiple of it and every evaluated check prints a line.
  A core that stores the halt sentinel during tick 3, a RUNNING tick, ends the run with
  the tick counter at 3 and with the progress lines of ticks 1 and 2 only on the output:
  on tick 3 the halt check left the loop before the progress check.
\<close>

theorem progress_check_skipped_counterexample:
  "final_output (run (sentinel_core 4) no_events (Simulator_init 4 2 100 None False (VTop_init 0)))
     = Some (3, ''Simulation progress: 1%'' @ endl @ ''Simulation progress: 2%'' @ endl)
   \<and> (2::u64) < 3 \<and> (3::u64) mod (100 div 100) = 0"
proof -
  define s0 where "s0 = run_reset (sentinel_core 4) (Simulator_init 4 2 100 None False (VTop_init 0))"
  have r: "replicate 2 (0::u32) = [0, 0]"
    by (simp add: numeral_2_eq_2)
  have i0: "vga_display s0 = None" "halt_address s0 = 4" "max_sim_time s0 = 100"
    "memory (bus s0) = [0, 0]" "io_instruction_address (top s0) = 0"
    "core (top s0) = 1" "main_time s0 = 0" "\<not> got_finish (top s0)" "stdout s0 = []"
    by (simp_all add: s0_def run_reset_def Simulator_init_def VTop_init_def sentinel_core_def
        Memory_init_def r Let_def)
  obtain s1 where s1: "tick (sentinel_core 4) no_events s0 = Inr (Continue, s1)"
    "vga_display s1 = None" "halt_address s1 = 4" "max_sim_time s1 = 100"
    "memory (bus s1) = [0, 0]" "io_instruction_address (top s1) = 0"
    "core (top s1) = 2" "\<not> got_finish (top s1)" "main_time s1 = 1"
    "stdout s1 = ''Simulation progress: 1%'' @ endl"
    using sentinel_core_tick_reports [of s0 4] i0 by (auto simp: dec_digits_small)
  obtain s2 where s2: "tick (sentinel_core 4) no_events s1 = Inr (Continue, s2)"
    "vga_display s2 = None" "halt_address s2 = 4" "max_sim_time s2 = 100"
    "memory (bus s2) = [0, 0]" "io_instruction_address (top s2) = 0"
    "core (top s2) = 3" "\<not> got_finish (top s2)" "main_time s2 = 2"
    "stdout s2 = ''Simulation progress: 1%'' @ endl @ ''Simulation progress: 2%'' @ endl"
    using sentinel_core_tick_reports [of s1 4] s1 by (auto simp: dec_digits_small)
  obtain s3 where s3: "tick (sentinel_core 4) no_events s2 = Inr (Break, s3)"
    "vga_display s3 = None" "main_time s3 = 3"
    "stdout s3 = ''Simulation progress: 1%'' @ endl @ ''Simulation progress: 2%'' @ endl"
    using sentinel_core_tick_skips [of s2 4] s2 by auto
  have c: "loop_condition s0" "loop_condition s1" "loop_condition s2"
    using i0 s1 s2 by (simp_all add: loop_condition_def)
  have "run_loop (sentinel_core 4) no_events s0 = Inr s3"
    using run_loop_continue [OF c(1) s1(1)] run_loop_continue [OF c(2) s2(1)]
      run_loop_break [OF c(3) s3(1)] by simp
  then show ?thesis
    using s3 by (simp add: final_output_def run_def s0_def [symmetric] Let_def signature_file_def)
qed

text \<open>
  Claim C10, amended.  The progress check \<open>tick % (budget / 100)\<close> is evaluated on every
  tick that does not leave the loop at the quit or halt check, and the result of such a
  tick is the result of the check at the incremented tick counter and the budget; a tick
  that leaves the loop there does so whatever the budget, without the check.  The
  divisor is the tick budget divided by 100 and is zero exactly when the budget is below
  100.  With a budget of at least 100 the check is defined: every tick, and so the whole
  loop, yields a state.  With a smaller budget every tick either leaves the loop at the
  quit or halt check or is the undefined remainder by zero, which is what happens on
  every tick of a session with no display and no halt address; no tick is undefined for
  any other reason.
\<close>

theorem progress_check_divisor:
  "progress_divisor s = max_sim_time s div 100
   \<and> (progress_divisor s = 0) = (max_sim_time s < 100)
   \<and> (tick_progress s = Inl DivisionByZero) = (max_sim_time s < 100)
   \<and> (100 \<le> max_sim_time s \<longrightarrow>
        progress_divisor s \<noteq> 0 \<and> (\<exists>r s'. tick eval poll s = Inr (r, s'))
        \<and> (\<exists>s'. run_loop eval poll s = Inr s'))
   \<and> (tick eval poll s = Inl DivisionByZero \<longrightarrow> max_sim_time s < 100)
   \<and> (max_sim_time s < 100 \<and> vga_display s = None \<and> halt_address s = 0 \<longrightarrow>
        tick eval poll s = Inl DivisionByZero)
   \<and> (max_sim_time s < 100 \<longrightarrow>
        tick eval poll s = Inl DivisionByZero \<or> (\<exists>s'. tick eval poll s = Inr (Break, s')))
   \<and> (map_sum id fst (tick eval poll s) \<noteq> Inr Break \<longrightarrow>
        (\<exists>u. map_sum id snd (tick eval poll s) = tick_progress u
           \<and> main_time u = main_time s + 1 \<and> max_sim_time u = max_sim_time s))
   \<and> (map_sum id fst (tick eval poll s) = Inr Break \<longrightarrow>
        map_sum id fst (tick eval poll (s\<lparr>max_sim_time := b\<rparr>)) = Inr Break)"
proof -
  have a: "progress_divisor s = max_sim_time s div 100"
    by (simp add: progress_divisor_def)
  have c: "100 \<le> max_sim_time s \<longrightarrow>
        progress_divisor s \<noteq> 0 \<and> (\<exists>r s'. tick eval poll s = Inr (r, s'))
        \<and> (\<exists>s'. run_loop eval poll s = Inr s')"
    using progress_divisor_zero_iff [of s] tick_defined [of s eval poll]
      run_loop_defined [of s eval poll]
    by (auto simp: not_less)
  have d: "tick eval poll s = Inl DivisionByZero \<longrightarrow> max_sim_time s < 100"
    using tick_error_small_budget [of eval poll s DivisionByZero] by blast
  have e: "max_sim_time s < 100 \<and> vga_display s = None \<and> halt_address s = 0 \<longrightarrow>
        tick eval poll s = Inl DivisionByZero"
    using tick_undefined [of s eval poll] by blast
  have f: "max_sim_time s < 100 \<longrightarrow>
        tick eval poll s = Inl DivisionByZero \<or> (\<exists>s'. tick eval poll s = Inr (Break, s'))"
    using tick_small_budget [of s eval poll] by blast
  have g: "map_sum id fst (tick eval poll s) \<noteq> Inr Break \<longrightarrow>
        (\<exists>u. map_sum id snd (tick eval poll s) = tick_progress u
           \<and> main_time u = main_time s + 1 \<and> max_sim_time u = max_sim_time s)"
    using tick_reaches_progress [of eval poll s] by blast
  have h: "map_sum id fst (tick eval poll s) = Inr Break \<longrightarrow>
        map_sum id fst (tick eval poll (s\<lparr>max_sim_time := b\<rparr>)) = Inr Break"
    using tick_break_budget_free [of eval poll b s] by blast
  show ?thesis
    using a progress_divisor_zero_iff [of s] tick_progress_error_iff [of s] c d e f g h
    by blast
qed

theorem progress_check_divisor_witness:
  "(100::u64) \<le> max_sim_time (Simulator_init 0 2 1000 None False (VTop_init ()))
   \<and> progress_divisor (Simulator_init 0 2 1000 None False (VTop_init ())) = 10
   \<and> max_sim_time (Simulator_init 0 2 50 None False (VTop_init ())) < 100
   \<and> vga_display (Simulator_init 0 2 50 None False (VTop_init ())) = None
   \<and> halt_address (Simulator_init 0 2 50 None False (VTop_init ())) = 0
   \<and> progress_divisor (Simulator_init 0 2 50 None False (VTop_init ())) = 0
   \<and> tick (\<lambda>t. t) no_events (Simulator_init 0 2 50 None False (VTop_init ())) = Inl DivisionByZero
   \<and> max_sim_time (Simulator_init 4 2 99 None False (VTop_init ())) < 100
   \<and> map_sum id fst (tick (\<lambda>t. t) no_events (Simulator_init 4 2 99 None False (VTop_init ())))
       \<noteq> Inr Break
   \<and> tick (\<lambda>t. t) no_events (Simulator_init 4 2 99 None False (VTop_init ())) = Inl DivisionByZero
   \<and> map_sum id fst (tick (sentinel_core 7) no_events sentinel_session) = Inr Break
   \<and> map_sum id fst (tick (sentinel_core 7) no_events (sentinel_session\<lparr>max_sim_time := 50\<rparr>))
       = Inr Break"
proof -
  have r: "replicate 2 (0::u32) = [0, 0]"
    by (simp add: numeral_2_eq_2)
  have n: "map_sum id fst (tick (\<lambda>t. t) no_events (Simulator_init 4 2 99 None False (VTop_init ())))
       \<noteq> Inr Break"
    by (rule tick_no_break)
       (simp_all add: Simulator_init_def VTop_init_def Memory_init_def r tick_eval_def
          tick_dispatch_def Let_def Memory_readInst_def Memory_read_def split: prod.splits)
  have e: "effective_address_of 0 4 = 4"
    by (simp add: effective_address_eq mask_eq_exp_minus_1)
  have w: "Memory_read (memory (bus (tick_dispatch (tick_eval (sentinel_core 7) sentinel_session))))
      (ucast (halt_address sentinel_session)) = 0xBABECAFE"
    by (rule sentinel_write_reaches_memory)
       (simp_all add: sentinel_session_def tick_eval_def Let_def sentinel_core_def
          Simulator_init_def VTop_init_def Memory_init_def e)
  have "halt_address sentinel_session \<noteq> 0"
    by (simp add: sentinel_session_def Simulator_init_def)
  then obtain s' where "tick (sentinel_core 7) no_events sentinel_session = Inr (Break, s')"
    using tick_halts [OF _ w, of no_events] by blast
  then have k: "map_sum id fst (tick (sentinel_core 7) no_events sentinel_session) = Inr Break"
    by simp
  have m: "max_sim_time (Simulator_init 4 2 99 None False (VTop_init ())) < 100"
    by (simp add: Simulator_init_def)
  have q: "tick (\<lambda>t. t) no_events (Simulator_init 4 2 99 None False (VTop_init ()))
      = Inl DivisionByZero"
    using progress_check_divisor
            [of "Simulator_init 4 2 99 None False (VTop_init ())" "\<lambda>t. t" no_events 50] m n
    by auto
  have j: "map_sum id fst (tick (sentinel_core 7) no_events (sentinel_session\<lparr>max_sim_time := 50\<rparr>))
       = Inr Break"
    using progress_check_divisor [of sentinel_session "sentinel_core 7" no_events 50] k
    by blast
  show ?thesis
    using progress_check_divisor
            [of "Simulator_init 0 2 1000 None False (VTop_init ())" "\<lambda>t. t" no_events 50]
          progress_check_divisor
            [of "Simulator_init 0 2 50 None False (VTop_init ())" "\<lambda>t. t" no_events 50]
          m n q k j
    by (simp add: Simulator_init_def)
qed

end
